theory Spec2Isabelle
  imports Complex_Main
begin

section \<open>Python values as the bridge receives them\<close>

text \<open>
  The bridge (\<^verbatim>\<open>enhanced-bridge.py\<close>, class \<^verbatim>\<open>EnhancedFiddlerRealtimeBridge\<close>) works on
  values decoded from JSON. A Python \<^verbatim>\<open>str\<close> is modelled as a \<open>string\<close> whose characters
  are the code points below 256; a Python \<^verbatim>\<open>float\<close> is a real number or one of the three
  non-finite values (rounding is not modelled); a \<^verbatim>\<open>dict\<close> is an association list read
  with \<open>map_of\<close>.
\<close>

datatype pyfloat = Fin real | PosInf | NegInf | NaN

datatype json =
    JNull
  | JBool bool
  | JInt int
  | JFloat pyfloat
  | JStr string
  | JList "json list"
  | JDict "(string \<times> json) list"

type_synonym pydict = "(string \<times> json) list"

datatype py_exn =
  TypeError | AttributeError | ValueError | OverflowError | OSError | KeyError | ReError

text \<open>Truth value of an object, and \<^verbatim>\<open>a or b\<close>.\<close>

fun truthy :: "json \<Rightarrow> bool" where
  "truthy JNull = False"
| "truthy (JBool b) = b"
| "truthy (JInt i) = (i \<noteq> 0)"
| "truthy (JFloat f) = (f \<noteq> Fin 0)"
| "truthy (JStr s) = (s \<noteq> [])"
| "truthy (JList xs) = (xs \<noteq> [])"
| "truthy (JDict kvs) = (kvs \<noteq> [])"

definition por :: "json \<Rightarrow> json \<Rightarrow> json" where
  "por a b = (if truthy a then a else b)"

text \<open>\<^verbatim>\<open>d.get(k)\<close>, \<^verbatim>\<open>d.get(k, default)\<close> and \<^verbatim>\<open>k in d and d[k] is not None\<close>.\<close>

definition dget :: "pydict \<Rightarrow> string \<Rightarrow> json" where
  "dget d k = (case map_of d k of None \<Rightarrow> JNull | Some v \<Rightarrow> v)"

definition dget_default :: "pydict \<Rightarrow> string \<Rightarrow> json \<Rightarrow> json" where
  "dget_default d k dflt = (case map_of d k of None \<Rightarrow> dflt | Some v \<Rightarrow> v)"

definition present :: "pydict \<Rightarrow> string \<Rightarrow> bool" where
  "present d k = (case map_of d k of None \<Rightarrow> False | Some v \<Rightarrow> v \<noteq> JNull)"

subsection \<open>String operations\<close>

definition is_space :: "char \<Rightarrow> bool" where
  "is_space c = (let n = (of_char c :: nat) in
     (9 \<le> n \<and> n \<le> 13) \<or> (28 \<le> n \<and> n \<le> 32) \<or> n = 133 \<or> n = 160)"

definition py_strip :: "string \<Rightarrow> string" where
  "py_strip s = rev (dropWhile is_space (rev (dropWhile is_space s)))"

definition py_lower_char :: "char \<Rightarrow> char" where
  "py_lower_char c = (let n = (of_char c :: nat) in
     if (65 \<le> n \<and> n \<le> 90) \<or> (192 \<le> n \<and> n \<le> 222 \<and> n \<noteq> 215)
     then char_of (n + 32) else c)"

definition py_upper_char :: "char \<Rightarrow> char" where
  "py_upper_char c = (let n = (of_char c :: nat) in
     if (97 \<le> n \<and> n \<le> 122) \<or> (224 \<le> n \<and> n \<le> 254 \<and> n \<noteq> 247)
     then char_of (n - 32) else c)"

definition py_lower :: "string \<Rightarrow> string" where
  "py_lower s = map py_lower_char s"

definition startswith :: "string \<Rightarrow> string \<Rightarrow> bool" where
  "startswith s p = (take (length p) s = p)"

text \<open>\<^verbatim>\<open>sub in s\<close> for strings.\<close>

fun contains :: "string \<Rightarrow> string \<Rightarrow> bool" where
  "contains sub [] = (sub = [])"
| "contains sub (c # cs) = (startswith (c # cs) sub \<or> contains sub cs)"

text \<open>Decimal rendering of integers, as \<^verbatim>\<open>str(n)\<close> and the f-string fields produce it.\<close>

definition digit_char :: "nat \<Rightarrow> char" where
  "digit_char n = char_of (48 + n)"

fun str_nat :: "nat \<Rightarrow> string" where
  "str_nat n = (if n < 10 then [digit_char n] else str_nat (n div 10) @ [digit_char (n mod 10)])"

declare str_nat.simps [simp del]

definition str_int :: "int \<Rightarrow> string" where
  "str_int i = (if i < 0 then CHR ''-'' # str_nat (nat (- i)) else str_nat (nat i))"

text \<open>\<^verbatim>\<open>int(x)\<close> on a float truncates towards zero.\<close>

definition py_trunc :: "real \<Rightarrow> int" where
  "py_trunc r = (if 0 \<le> r then \<lfloor>r\<rfloor> else \<lceil>r\<rceil>)"

text \<open>
  \<^verbatim>\<open>int(s)\<close> on a string: surrounding whitespace, an optional sign, then decimal digits
  in which single underscores may separate digits. \<open>None\<close> is \<^verbatim>\<open>ValueError\<close>.
\<close>

definition is_digit :: "char \<Rightarrow> bool" where
  "is_digit c = (let n = (of_char c :: nat) in 48 \<le> n \<and> n \<le> 57)"

definition digit_val :: "char \<Rightarrow> nat" where
  "digit_val c = of_char c - 48"

fun py_digits :: "nat \<Rightarrow> string \<Rightarrow> nat option" where
  "py_digits acc [] = Some acc"
| "py_digits acc [c] = (if is_digit c then Some (acc * 10 + digit_val c) else None)"
| "py_digits acc (c # c' # cs) =
     (if is_digit c then py_digits (acc * 10 + digit_val c) (c' # cs)
      else if c = CHR ''_'' \<and> is_digit c' then py_digits acc (c' # cs)
      else None)"

definition py_unsigned :: "string \<Rightarrow> nat option" where
  "py_unsigned s = (case s of [] \<Rightarrow> None | c # _ \<Rightarrow> if is_digit c then py_digits 0 s else None)"

definition int_of_str :: "string \<Rightarrow> int option" where
  "int_of_str s =
     (case py_strip s of
        [] \<Rightarrow> None
      | c # cs \<Rightarrow>
          if c = CHR ''-'' then map_option (\<lambda>n. - int n) (py_unsigned cs)
          else if c = CHR ''+'' then map_option int (py_unsigned cs)
          else map_option int (py_unsigned (c # cs)))"

text \<open>\<^verbatim>\<open>float(i)\<close> on an integer overflows beyond the double range.\<close>

definition float_of_int :: "int \<Rightarrow> py_exn + pyfloat" where
  "float_of_int i = (if \<bar>i\<bar> < 2 ^ 1024 - 2 ^ 970 then Inr (Fin (real_of_int i)) else Inl OverflowError)"

section \<open>The environment of a call\<close>

text \<open>
  What the code takes from the Python library and from the clock is a parameter of the
  model: the text \<^verbatim>\<open>str()\<close> gives for floats, lists and dicts, \<^verbatim>\<open>urlparse\<close>, base64
  decoding, the date parsers and formatters, the message of an exception, and the
  successive readings of \<^verbatim>\<open>time.time()\<close> and \<^verbatim>\<open>datetime.utcnow()\<close> during the call.
\<close>

record parsed_url =
  p_scheme :: string
  p_hostname :: "string option"

record pyenv =
  repr_json :: "json \<Rightarrow> string"
  urlparse :: "string \<Rightarrow> py_exn + parsed_url"
  b64decode_text :: "json \<Rightarrow> string option"
  iso_timestamp :: "string \<Rightarrow> py_exn + real"
  float_of_str :: "string \<Rightarrow> pyfloat option"
  utc_isoformat :: "real \<Rightarrow> py_exn + string"
  local_hms :: "real \<Rightarrow> py_exn + string"
  exn_str :: "py_exn \<Rightarrow> string"
  time_time :: real
  time_time_err_id :: real
  time_time_err :: real
  utcnow_iso :: string
  utcnow_iso2 :: string
  utcnow_hms :: string

text \<open>\<^verbatim>\<open>str(v)\<close>.\<close>

definition py_str :: "pyenv \<Rightarrow> json \<Rightarrow> string" where
  "py_str env v =
     (case v of
        JStr s \<Rightarrow> s
      | JInt i \<Rightarrow> str_int i
      | JBool b \<Rightarrow> (if b then ''True'' else ''False'')
      | JNull \<Rightarrow> ''None''
      | _ \<Rightarrow> repr_json env v)"

text \<open>
  \<^verbatim>\<open>int(v)\<close>: \<^verbatim>\<open>ValueError\<close> and \<^verbatim>\<open>TypeError\<close> are the two errors the callers catch,
  \<^verbatim>\<open>OverflowError\<close> (an infinite float) is not among them.
\<close>

definition py_int :: "json \<Rightarrow> py_exn + int" where
  "py_int v =
     (case v of
        JInt i \<Rightarrow> Inr i
      | JBool b \<Rightarrow> Inr (if b then 1 else 0)
      | JFloat (Fin r) \<Rightarrow> Inr (py_trunc r)
      | JFloat NaN \<Rightarrow> Inl ValueError
      | JFloat _ \<Rightarrow> Inl OverflowError
      | JStr s \<Rightarrow> (case int_of_str s of Some i \<Rightarrow> Inr i | None \<Rightarrow> Inl ValueError)
      | _ \<Rightarrow> Inl TypeError)"

text \<open>
  The pattern \<^verbatim>\<open>try: x = int(x) / except (ValueError, TypeError): x = 0\<close>.
\<close>

definition int_or_zero :: "json \<Rightarrow> py_exn + int" where
  "int_or_zero v =
     (case py_int v of
        Inr i \<Rightarrow> Inr i
      | Inl e \<Rightarrow> if e = ValueError \<or> e = TypeError then Inr 0 else Inl e)"

section \<open>Canonical records and normalization\<close>

text \<open>
  The dict \<^verbatim>\<open>normalize_session\<close> returns. A field the code fills with whatever the
  payload holds is a \<open>json\<close>; \<^verbatim>\<open>scheme\<close> is absent from the fallback record.
\<close>

record session =
  sid :: string
  url :: string
  host :: json
  method' :: json
  scheme :: "string option"
  statusCode :: int
  contentType :: json
  contentLength :: int
  requestHeaders :: json
  responseHeaders :: json
  responseBody :: json
  requestBody :: json
  received_at :: pyfloat
  received_at_iso :: string
  ekfiddleComments :: json
  ekfiddleFlags :: json
  sessionFlags :: json
  timestamp :: string
  fiddler_session_id :: json

definition replace_Z :: "string \<Rightarrow> string" where
  "replace_Z s = concat (map (\<lambda>c. if c = CHR ''Z'' then ''+00:00'' else [c]) s)"

text \<open>\<^verbatim>\<open>_coerce_timestamp(value, default_epoch)\<close>.\<close>

definition coerce_timestamp :: "pyenv \<Rightarrow> json \<Rightarrow> real \<Rightarrow> py_exn + pyfloat" where
  "coerce_timestamp env v default_epoch =
     (case v of
        JNull \<Rightarrow> Inr (Fin default_epoch)
      | JBool b \<Rightarrow> Inr (Fin (if b then 1 else 0))
      | JInt i \<Rightarrow>
          (if real_of_int i > 10 ^ 12
           then (case float_of_int i of Inl e \<Rightarrow> Inl e | Inr f \<Rightarrow>
                  (case f of Fin r \<Rightarrow> Inr (Fin (r / 1000)) | _ \<Rightarrow> Inr f))
           else float_of_int i)
      | JFloat f \<Rightarrow>
          (case f of
             Fin r \<Rightarrow> Inr (Fin (if r > 10 ^ 12 then r / 1000 else r))
           | _ \<Rightarrow> Inr f)
      | JStr s \<Rightarrow>
          (let value = py_strip s in
           if value = [] then Inr (Fin default_epoch)
           else
             (case iso_timestamp env (replace_Z value) of
                Inr t \<Rightarrow> Inr (Fin t)
              | Inl e \<Rightarrow>
                  if e = ValueError
                  then (case float_of_str env value of
                          Some f \<Rightarrow> Inr f
                        | None \<Rightarrow> Inr (Fin default_epoch))
                  else Inl e))
      | _ \<Rightarrow> Inr (Fin default_epoch))"

text \<open>\<^verbatim>\<open>datetime.utcfromtimestamp(t).isoformat() + "Z"\<close>: raises on a non-finite float.\<close>

definition utc_iso_z :: "pyenv \<Rightarrow> pyfloat \<Rightarrow> py_exn + string" where
  "utc_iso_z env f =
     (case f of
        Fin r \<Rightarrow> (case utc_isoformat env r of Inl e \<Rightarrow> Inl e | Inr s \<Rightarrow> Inr (s @ ''Z''))
      | NaN \<Rightarrow> Inl ValueError
      | _ \<Rightarrow> Inl OverflowError)"

text \<open>The session id of the \<^verbatim>\<open>try\<close> block: an \<^verbatim>\<open>if/elif\<close> chain over the three aliases.\<close>

definition alias_sid :: "pyenv \<Rightarrow> pydict \<Rightarrow> string option" where
  "alias_sid env d =
     (if present d ''id'' then Some (py_str env (dget d ''id''))
      else if present d ''session_id'' then Some (py_str env (dget d ''session_id''))
      else if present d ''fiddler_session_id'' then Some (py_str env (dget d ''fiddler_session_id''))
      else None)"

text \<open>The warning printed when no id was found slices \<^verbatim>\<open>d.get('url', 'unknown')\<close>.\<close>

definition sliceable :: "json \<Rightarrow> bool" where
  "sliceable v = (case v of JStr _ \<Rightarrow> True | JList _ \<Rightarrow> True | _ \<Rightarrow> False)"

text \<open>The body of the \<^verbatim>\<open>try\<close> block of \<^verbatim>\<open>normalize_session\<close>; \<open>Inl\<close> is a raised exception.\<close>

definition normalize_try :: "pyenv \<Rightarrow> pydict \<Rightarrow> py_exn + session" where
  "normalize_try env d =
    (let now_epoch = time_time env in
     case (case alias_sid env d of
             Some s \<Rightarrow> Inr s
           | None \<Rightarrow>
               if sliceable (dget_default d ''url'' (JStr ''unknown''))
               then Inr (''missing-id-'' @ str_int (py_trunc (now_epoch * 1000)))
               else Inl TypeError) of
       Inl e \<Rightarrow> Inl e
     | Inr sid_v \<Rightarrow>
    (let url_v = por (dget d ''url'') (JStr '''') in
     case (if truthy url_v
           then (case url_v of
                   JStr u \<Rightarrow> (case urlparse env u of Inl e \<Rightarrow> Inl e | Inr p \<Rightarrow> Inr (Some p))
                 | _ \<Rightarrow> Inl AttributeError)
           else Inr None) of
       Inl e \<Rightarrow> Inl e
     | Inr parsed \<Rightarrow>
    (let host_v = por (dget d ''host'')
           (case parsed of
              Some p \<Rightarrow> (case p_hostname p of None \<Rightarrow> JNull | Some h \<Rightarrow> JStr h)
            | None \<Rightarrow> JStr '''');
         method_v = por (dget d ''method'') (por (dget d ''RequestMethod'') (JStr ''''))
     in
     case int_or_zero (por (dget_default d ''statusCode'' (dget_default d ''status'' (JInt 0))) (JInt 0)) of
       Inl e \<Rightarrow> Inl e
     | Inr code \<Rightarrow>
    (let ctype = por (dget d ''contentType'') (por (dget d ''mime'') (JStr '''')) in
     case int_or_zero (por (dget_default d ''contentLength'' (dget_default d ''body_length'' (JInt 0))) (JInt 0)) of
       Inl e \<Rightarrow> Inl e
     | Inr clen \<Rightarrow>
    (let body0 = por (dget d ''responseBody'') (JStr '''');
         body_text =
           (if \<not> truthy body0
            then (let b64 = por (dget d ''responseBodyBase64'') (dget d ''response_body_base64'') in
                  if truthy b64
                  then (case b64decode_text env b64 of Some t \<Rightarrow> JStr t | None \<Rightarrow> JStr '''')
                  else body0)
            else body0);
         timestamp_raw = por (dget d ''received_at'') (por (dget d ''timestamp'') (dget d ''StartedDateTime''))
     in
     case coerce_timestamp env timestamp_raw now_epoch of
       Inl e \<Rightarrow> Inl e
     | Inr recv \<Rightarrow>
    (let scheme0 = por (dget d ''scheme'') (dget d ''protocol'');
         scheme1 = (if \<not> truthy scheme0
                    then (case parsed of Some p \<Rightarrow> JStr (p_scheme p) | None \<Rightarrow> scheme0)
                    else scheme0)
     in
     case (case por scheme1 (JStr ''http'') of JStr s \<Rightarrow> Inr (py_lower s) | _ \<Rightarrow> Inl AttributeError) of
       Inl e \<Rightarrow> Inl e
     | Inr scheme_v \<Rightarrow>
    (case utc_iso_z env recv of
       Inl e \<Rightarrow> Inl e
     | Inr iso_z \<Rightarrow>
        Inr \<lparr> sid = sid_v,
              url = (case url_v of JStr u \<Rightarrow> u | _ \<Rightarrow> ''''),
              host = host_v,
              method' = method_v,
              scheme = Some scheme_v,
              statusCode = code,
              contentType = ctype,
              contentLength = clen,
              requestHeaders = por (dget d ''requestHeaders'') (por (dget d ''request_headers'') (JDict [])),
              responseHeaders = por (dget d ''responseHeaders'') (por (dget d ''response_headers'') (JDict [])),
              responseBody = body_text,
              requestBody = por (dget d ''requestBody'') (por (dget d ''request_body'') (JStr '''')),
              received_at = recv,
              received_at_iso = iso_z,
              ekfiddleComments = por (dget d ''ekfiddleComments'') (JStr ''''),
              ekfiddleFlags = por (dget d ''ekfiddleFlags'') (JStr ''''),
              sessionFlags = por (dget d ''sessionFlags'') (JStr ''''),
              timestamp = iso_z,
              fiddler_session_id = por (dget d ''fiddler_session_id'') (JStr sid_v) \<rparr>)))))))"

text \<open>The \<^verbatim>\<open>except\<close> block: the id is looked up again, by a loop over the alias list.\<close>

fun first_alias :: "pyenv \<Rightarrow> pydict \<Rightarrow> string list \<Rightarrow> string option" where
  "first_alias env d [] = None"
| "first_alias env d (key # keys) =
     (if present d key then Some (py_str env (dget d key)) else first_alias env d keys)"

definition normalize_fallback :: "pyenv \<Rightarrow> pydict \<Rightarrow> py_exn \<Rightarrow> session" where
  "normalize_fallback env d e =
    (let error_sid =
           (case first_alias env d [''id'', ''session_id'', ''fiddler_session_id''] of
              Some s \<Rightarrow> s
            | None \<Rightarrow> ''error-'' @ str_int (py_trunc (time_time_err_id env * 1000)))
     in \<lparr> sid = error_sid,
          url = py_str env (dget_default d ''url'' (JStr '''')),
          host = JStr (py_str env (dget_default d ''host'' (JStr ''''))),
          method' = JStr (py_str env (dget_default d ''method'' (JStr ''GET''))),
          scheme = None,
          statusCode = 0,
          contentType = JStr '''',
          contentLength = 0,
          requestHeaders = JDict [],
          responseHeaders = JDict [],
          responseBody = JStr '''',
          requestBody = JStr '''',
          received_at = Fin (time_time_err env),
          received_at_iso = utcnow_iso env @ ''Z'',
          ekfiddleComments = JStr (''normalization_error: '' @ exn_str env e),
          ekfiddleFlags = JStr '''',
          sessionFlags = JStr '''',
          timestamp = utcnow_iso2 env @ ''Z'',
          fiddler_session_id = JStr error_sid \<rparr>)"

text \<open>
  \<^verbatim>\<open>normalize_session(d)\<close>. On a dict the \<^verbatim>\<open>except\<close> block catches whatever the \<^verbatim>\<open>try\<close>
  block raises. On any other value the \<^verbatim>\<open>try\<close> block raises (\<^verbatim>\<open>"id" in d\<close>, \<^verbatim>\<open>d["id"]\<close>
  or \<^verbatim>\<open>d.get\<close>), and so does the \<^verbatim>\<open>except\<close> block, which evaluates the same expressions
  unprotected: the exception leaves the function.
\<close>

definition names_alias :: "json \<Rightarrow> bool" where
  "names_alias v =
     (case v of
        JStr s \<Rightarrow> contains ''id'' s
      | JList xs \<Rightarrow> JStr ''id'' \<in> set xs \<or> JStr ''session_id'' \<in> set xs \<or> JStr ''fiddler_session_id'' \<in> set xs
      | _ \<Rightarrow> True)"

definition normalize_session :: "pyenv \<Rightarrow> json \<Rightarrow> py_exn + session" where
  "normalize_session env v =
     (case v of
        JDict d \<Rightarrow>
          (case normalize_try env d of
             Inr s \<Rightarrow> Inr s
           | Inl e \<Rightarrow> Inr (normalize_fallback env d e))
      | _ \<Rightarrow> Inl (if names_alias v then TypeError else AttributeError))"

section \<open>The session store\<close>

text \<open>
  The two buffers of \<^verbatim>\<open>__init__\<close>: \<^verbatim>\<open>deque(maxlen=5000)\<close> and \<^verbatim>\<open>deque(maxlen=1000)\<close>, oldest
  element first. \<^verbatim>\<open>deque.append\<close> on a bounded deque adds on the right and, when the
  deque then exceeds its bound, drops the leftmost element.
\<close>

record store =
  live_sessions :: "session list"
  suspicious_sessions :: "session list"

definition live_maxlen :: nat where
  "live_maxlen = 5000"

definition suspicious_maxlen :: nat where
  "suspicious_maxlen = 1000"

definition empty_store :: store where
  "empty_store = \<lparr> live_sessions = [], suspicious_sessions = [] \<rparr>"

definition deque_append :: "nat \<Rightarrow> 'a list \<Rightarrow> 'a \<Rightarrow> 'a list" where
  "deque_append maxlen q x = (let q' = q @ [x] in if length q' > maxlen then tl q' else q')"

text \<open>
  The annotation both \<^verbatim>\<open>is_immediately_suspicious\<close> and \<^verbatim>\<open>_quick_risk_assessment\<close> read:
  \<^verbatim>\<open>(ekfiddleComments or sessionFlags or ekfiddleFlags or "").strip()\<close>; \<^verbatim>\<open>strip\<close> exists
  on strings only.
\<close>

definition ekfiddle_text :: "session \<Rightarrow> py_exn + string" where
  "ekfiddle_text s =
     (case por (ekfiddleComments s) (por (sessionFlags s) (por (ekfiddleFlags s) (JStr ''''))) of
        JStr t \<Rightarrow> Inr (py_strip t)
      | _ \<Rightarrow> Inl AttributeError)"

text \<open>\<^verbatim>\<open>is_immediately_suspicious\<close>: any exception is caught and answered \<^verbatim>\<open>False\<close>.\<close>

definition is_immediately_suspicious :: "session \<Rightarrow> bool" where
  "is_immediately_suspicious s =
     (case ekfiddle_text s of
        Inl e \<Rightarrow> False
      | Inr ekfiddle \<Rightarrow> if ekfiddle \<noteq> [] then True else 400 \<le> statusCode s)"

text \<open>
  \<^verbatim>\<open>receive_session\<close> (POST /live-session). The argument is what
  \<^verbatim>\<open>request.get_json(silent=True)\<close> returns, \<open>None\<close> when the body is not JSON. The id that
  the invalid-JSON reply recovers from the raw text for its log line is not modelled.
\<close>

datatype ingest_reply =
    Created string
  | Invalid_json
  | Empty_payload
  | Ingest_failed py_exn

definition receive_session :: "pyenv \<Rightarrow> json option \<Rightarrow> store \<Rightarrow> ingest_reply \<times> store" where
  "receive_session env data st =
     (case data of
        None \<Rightarrow> (Invalid_json, st)
      | Some JNull \<Rightarrow> (Invalid_json, st)
      | Some v \<Rightarrow>
          if \<not> truthy v then (Empty_payload, st)
          else
            (case normalize_session env v of
               Inl e \<Rightarrow> (Ingest_failed e, st)
             | Inr sess \<Rightarrow>
                 (Created (sid sess),
                  \<lparr> live_sessions = deque_append live_maxlen (live_sessions st) sess,
                    suspicious_sessions =
                      (if is_immediately_suspicious sess
                       then deque_append suspicious_maxlen (suspicious_sessions st) sess
                       else suspicious_sessions st) \<rparr>)))"

text \<open>
  \<^verbatim>\<open>clear_sessions\<close> (POST /api/clear). The argument is the outcome of
  \<^verbatim>\<open>request.get_json()\<close>: \<open>None\<close> when it raises.
\<close>

datatype clear_reply =
    Cleared nat nat
  | Clear_failed py_exn

definition clear_sessions :: "json option \<Rightarrow> store \<Rightarrow> clear_reply \<times> store" where
  "clear_sessions body st =
     (case body of
        None \<Rightarrow> (Clear_failed ValueError, st)
      | Some j \<Rightarrow>
          (case por j (JDict []) of
             JDict data \<Rightarrow>
               (let clear_suspicious = dget_default data ''clear_suspicious'' (JBool False);
                    sessions_cleared = length (live_sessions st)
                in if truthy clear_suspicious
                   then (Cleared sessions_cleared (length (suspicious_sessions st)),
                         \<lparr> live_sessions = [], suspicious_sessions = [] \<rparr>)
                   else (Cleared sessions_cleared 0,
                         \<lparr> live_sessions = [], suspicious_sessions = suspicious_sessions st \<rparr>))
           | _ \<Rightarrow> (Clear_failed AttributeError, st)))"

text \<open>
  The lookup loop that \<^verbatim>\<open>get_session_details\<close>, \<^verbatim>\<open>get_session_headers\<close> and
  \<^verbatim>\<open>get_session_body\<close> each run under the lock:
  \<^verbatim>\<open>for session in reversed(self.live_sessions): if str(session.get('id', '')) == str(session_id)\<close>.
\<close>

definition session_by_id :: "store \<Rightarrow> string \<Rightarrow> session option" where
  "session_by_id st session_id = find (\<lambda>s. sid s = session_id) (rev (live_sessions st))"

datatype headers_reply =
    Headers_found string json json
  | Headers_not_found string

definition get_session_headers :: "store \<Rightarrow> string \<Rightarrow> headers_reply" where
  "get_session_headers st session_id =
     (case session_by_id st session_id of
        Some s \<Rightarrow> Headers_found session_id (requestHeaders s) (responseHeaders s)
      | None \<Rightarrow> Headers_not_found session_id)"

text \<open>Histories of the store: any interleaving of ingests and clears from the empty store.\<close>

datatype store_op =
    Ingest pyenv "json option"
  | Clear "json option"

fun step :: "store \<Rightarrow> store_op \<Rightarrow> store" where
  "step st (Ingest env data) = snd (receive_session env data st)"
| "step st (Clear body) = snd (clear_sessions body st)"

definition run :: "store_op list \<Rightarrow> store" where
  "run ops = foldl step empty_store ops"

text \<open>The record a request adds to the store: the normalized payload, when the reply is 201.\<close>

definition ingested_record :: "pyenv \<times> json option \<Rightarrow> session option" where
  "ingested_record r =
     (case snd r of
        None \<Rightarrow> None
      | Some v \<Rightarrow>
          if truthy v
          then (case normalize_session (fst r) v of Inl e \<Rightarrow> None | Inr sess \<Rightarrow> Some sess)
          else None)"

definition ingested :: "(pyenv \<times> json option) list \<Rightarrow> session list" where
  "ingested rs = List.map_filter ingested_record rs"

definition ingest_ops :: "(pyenv \<times> json option) list \<Rightarrow> store_op list" where
  "ingest_ops rs = map (\<lambda>r. Ingest (fst r) (snd r)) rs"

text \<open>
  An environment to evaluate concrete calls in: a clock at 1700000000, and a library
  that finds no host in a URL and parses no date.
\<close>

definition sample_env :: pyenv where
  "sample_env =
     \<lparr> repr_json = (\<lambda>v. ''?''),
       urlparse = (\<lambda>u. Inr \<lparr> p_scheme = '''', p_hostname = None \<rparr>),
       b64decode_text = (\<lambda>v. None),
       iso_timestamp = (\<lambda>s. Inl ValueError),
       float_of_str = (\<lambda>s. None),
       utc_isoformat = (\<lambda>t. Inr ''2023-11-14T22:13:20''),
       local_hms = (\<lambda>t. Inr ''22:13:20''),
       exn_str = (\<lambda>e. if e = ReError then ''missing ), unterminated subpattern at position 0''
                       else ''error''),
       time_time = 1700000000,
       time_time_err_id = 1700000000,
       time_time_err = 1700000000,
       utcnow_iso = ''2023-11-14T22:13:20'',
       utcnow_iso2 = ''2023-11-14T22:13:20'',
       utcnow_hms = ''22:13:20'' \<rparr>"

text \<open>Whether the body of a clear request asks for the suspicious buffer to be cleared too.\<close>

definition requests_suspicious_clear :: "json option \<Rightarrow> bool" where
  "requests_suspicious_clear body =
     (case body of
        Some (JDict data) \<Rightarrow> truthy (dget_default data ''clear_suspicious'' (JBool False))
      | _ \<Rightarrow> False)"

section \<open>Risk classification\<close>

datatype risk_level = LOW | MEDIUM | HIGH | CRITICAL

record assessment =
  score :: real
  level :: risk_level
  flag :: "string option"
  reasons :: "string list"

text \<open>\<^verbatim>\<open>any(pattern in ekfiddle_lower for pattern in [...])\<close>.\<close>

definition any_in :: "string list \<Rightarrow> string \<Rightarrow> bool" where
  "any_in patterns s = list_ex (\<lambda>pattern. contains pattern s) patterns"

text \<open>The explicit severity level, read from the start or the first 20 characters.\<close>

definition severity_token :: "string \<Rightarrow> real \<times> risk_level" where
  "severity_token ekfiddle_lower =
     (if startswith ekfiddle_lower ''critical:'' \<or> contains ''critical'' (take 20 ekfiddle_lower)
      then (1.0, CRITICAL)
      else if startswith ekfiddle_lower ''high:'' \<or> contains ''high'' (take 20 ekfiddle_lower)
      then (0.85, HIGH)
      else if startswith ekfiddle_lower ''medium:'' \<or> contains ''medium'' (take 20 ekfiddle_lower)
      then (0.65, MEDIUM)
      else if startswith ekfiddle_lower ''low:'' \<or> contains ''low'' (take 20 ekfiddle_lower)
      then (0.4, MEDIUM)
      else (0.5, MEDIUM))"

text \<open>The additional scoring on threat keywords, an \<^verbatim>\<open>if/elif/elif\<close> chain.\<close>

definition keyword_escalation :: "string \<Rightarrow> real \<times> risk_level \<Rightarrow> real \<times> risk_level" where
  "keyword_escalation ekfiddle_lower sl =
     (let risk_score = fst sl; risk_level = snd sl in
      if any_in [''exploit'', ''malware'', ''trojan'', ''backdoor'', ''ransomware''] ekfiddle_lower
      then (max risk_score 1.0, CRITICAL)
      else if any_in [''phishing'', ''credential'', ''socgholish'', ''fake update''] ekfiddle_lower
      then (max risk_score 0.85, HIGH)
      else if any_in [''suspicious'', ''obfuscated'', ''encoded'', ''eval''] ekfiddle_lower
      then (max risk_score 0.65,
            if risk_level = MEDIUM \<and> contains ''high'' (take 20 ekfiddle_lower) then HIGH else risk_level)
      else (risk_score, risk_level))"

text \<open>
  \<^verbatim>\<open>_quick_risk_assessment(session)\<close>. The status of a stored record is an integer
  already. \<open>Inl\<close>: the annotation is not a string and \<^verbatim>\<open>strip\<close> raises.
\<close>

definition quick_risk_assessment :: "session \<Rightarrow> py_exn + assessment" where
  "quick_risk_assessment s =
     (let status = statusCode s in
      case ekfiddle_text s of
        Inl e \<Rightarrow> Inl e
      | Inr ekfiddle \<Rightarrow>
          if ekfiddle \<noteq> []
          then (let ekfiddle_lower = py_lower ekfiddle;
                    sl = keyword_escalation ekfiddle_lower (severity_token ekfiddle_lower)
                in Inr \<lparr> score = fst sl, level = snd sl, flag = Some ''ekfiddle_alert'',
                         reasons = [''EKFiddle: '' @ ekfiddle] \<rparr>)
          else Inr \<lparr> score = 0.0, level = LOW,
                     flag = (if 400 \<le> status then Some ''error_status'' else None),
                     reasons = (if 400 \<le> status
                                then [''HTTP error status '' @ str_int status @ '' (informational only)'']
                                else []) \<rparr>)"

section \<open>Search\<close>

text \<open>
  \<^verbatim>\<open>_format_session_overview(session)\<close>, with the three keys \<^verbatim>\<open>search_sessions\<close> adds
  (\<^verbatim>\<open>method\<close> is overwritten there).
\<close>

record overview =
  o_id :: string
  o_time :: string
  o_method :: json
  o_url :: string
  o_host :: json
  o_status :: string
  o_statusCode :: int
  o_content_type :: string
  o_size :: int
  o_is_https :: bool
  o_risk_flag :: "string option"
  o_risk_score :: real
  o_risk_level :: risk_level
  o_risk_reasons :: "string list"
  o_received_at :: pyfloat
  o_received_at_iso :: string
  o_content_type_full :: "json option"
  o_contentLength :: "int option"

text \<open>
  \<^verbatim>\<open>datetime.fromtimestamp(t).strftime("%H:%M:%S")\<close>, with \<^verbatim>\<open>ValueError\<close> and \<^verbatim>\<open>OSError\<close>
  answered by the current time.
\<close>

definition display_time :: "pyenv \<Rightarrow> pyfloat \<Rightarrow> py_exn + string" where
  "display_time env f =
     (case (case f of
              Fin r \<Rightarrow> local_hms env r
            | NaN \<Rightarrow> Inl ValueError
            | _ \<Rightarrow> Inl OverflowError) of
        Inr t \<Rightarrow> Inr t
      | Inl e \<Rightarrow> if e = ValueError \<or> e = OSError then Inr (utcnow_hms env) else Inl e)"

definition format_session_overview :: "pyenv \<Rightarrow> session \<Rightarrow> py_exn + overview" where
  "format_session_overview env s =
     (case quick_risk_assessment s of
        Inl e \<Rightarrow> Inl e
      | Inr a \<Rightarrow>
     (case display_time env (received_at s) of
        Inl e \<Rightarrow> Inl e
      | Inr t \<Rightarrow>
     (case por (contentType s) (JStr '''') of
        JStr ct \<Rightarrow>
          Inr \<lparr> o_id = sid s,
                o_time = t,
                o_method = method' s,
                o_url = url s,
                o_host = host s,
                o_status = str_int (statusCode s),
                o_statusCode = statusCode s,
                o_content_type = takeWhile (\<lambda>c. c \<noteq> CHR '';'') ct,
                o_size = contentLength s,
                o_is_https = (py_lower (case scheme s of Some x \<Rightarrow> x | None \<Rightarrow> '''') = ''https''),
                o_risk_flag = flag a,
                o_risk_score = score a,
                o_risk_level = level a,
                o_risk_reasons = reasons a,
                o_received_at = received_at s,
                o_received_at_iso = received_at_iso s,
                o_content_type_full = None,
                o_contentLength = None \<rparr>
      | _ \<Rightarrow> Inl AttributeError)))"

text \<open>
  The query string: \<^verbatim>\<open>request.args\<close>, names to texts. \<^verbatim>\<open>q.get(a) or q.get(b) or ""\<close>
  and \<^verbatim>\<open>int(q.get(a) or n)\<close>.
\<close>

type_synonym query = "(string \<times> string) list"

definition arg_or :: "query \<Rightarrow> string \<Rightarrow> string \<Rightarrow> string" where
  "arg_or q a b =
     (case map_of q a of
        Some s \<Rightarrow> if s \<noteq> [] then s else (case map_of q b of Some t \<Rightarrow> t | None \<Rightarrow> [])
      | None \<Rightarrow> (case map_of q b of Some t \<Rightarrow> t | None \<Rightarrow> []))"

definition int_arg :: "query \<Rightarrow> string \<Rightarrow> int \<Rightarrow> py_exn + int" where
  "int_arg q a n =
     (case map_of q a of
        Some s \<Rightarrow>
          if s \<noteq> [] then (case int_of_str s of Some i \<Rightarrow> Inr i | None \<Rightarrow> Inl ValueError)
          else Inr n
      | None \<Rightarrow> Inr n)"

text \<open>
  \<^verbatim>\<open>str.upper()\<close>. The capitals of \<open>\<mu>\<close> and of y with diaeresis lie beyond code point 255
  and these two characters are left as they are.
\<close>

definition py_upper :: "string \<Rightarrow> string" where
  "py_upper s = concat (map (\<lambda>c. if of_char c = (223 :: nat) then ''SS'' else [py_upper_char c]) s)"

definition mime_groups :: "(string \<times> string list) list" where
  "mime_groups =
     [(''javascript'', [''application/javascript'', ''text/javascript'', ''application/x-javascript'']),
      (''html'', [''text/html'']),
      (''json'', [''application/json'', ''text/json'']),
      (''css'', [''text/css'']),
      (''plain'', [''text/plain''])]"

definition ctype_matches :: "json \<Rightarrow> string option \<Rightarrow> py_exn + bool" where
  "ctype_matches ct want =
     (case want of
        None \<Rightarrow> Inr True
      | Some w \<Rightarrow>
          if w = [] then Inr True
          else
            (case por ct (JStr '''') of
               JStr c \<Rightarrow>
                 (let base = py_lower (py_strip (takeWhile (\<lambda>x. x \<noteq> CHR '';'') c)) in
                  Inr (base \<in> set (case map_of mime_groups w of Some g \<Rightarrow> g | None \<Rightarrow> [])
                       \<or> base = py_lower w))
             | _ \<Rightarrow> Inl AttributeError))"

text \<open>The filters of one search, as the code has them after parsing the arguments.\<close>

record filters =
  host_rx :: "(string \<Rightarrow> bool) option"
  url_rx :: "(string \<Rightarrow> bool) option"
  f_method :: "string option"
  ctype_want :: "string option"
  status_min :: int
  status_max :: int
  min_size :: int
  max_size :: int
  limit :: int
  cutoff_ts :: "real option"

definition pyfloat_less :: "pyfloat \<Rightarrow> real \<Rightarrow> bool" where
  "pyfloat_less f c = (case f of Fin r \<Rightarrow> r < c | NegInf \<Rightarrow> True | _ \<Rightarrow> False)"

text \<open>
  The body of the loop over the buffer: \<open>Inr None\<close> is \<^verbatim>\<open>continue\<close>, \<open>Inr (Some ov)\<close> a
  match with its overview, \<open>Inl\<close> an exception.
\<close>

definition examine :: "pyenv \<Rightarrow> filters \<Rightarrow> session \<Rightarrow> py_exn + overview option" where
  "examine env f s =
    (let url_v = url s in
     case (if \<not> truthy (host s) \<and> url_v \<noteq> []
           then (case urlparse env url_v of
                   Inl e \<Rightarrow> Inl e
                 | Inr p \<Rightarrow> Inr (JStr (case p_hostname p of Some h \<Rightarrow> h | None \<Rightarrow> '''')))
           else Inr (por (host s) (JStr ''''))) of
       Inl e \<Rightarrow> Inl e
     | Inr host_v \<Rightarrow>
    (case por (method' s) (JStr '''') of
       JStr m \<Rightarrow>
        (let meth = py_upper m;
             code = statusCode s;
             ctype = por (contentType s) (JStr '''');
             size_v = contentLength s;
             recv = received_at s
         in
         if (case cutoff_ts f of Some c \<Rightarrow> pyfloat_less recv c | None \<Rightarrow> False) then Inr None
         else
         (case (case host_rx f of
                  None \<Rightarrow> Inr True
                | Some rx \<Rightarrow> (case host_v of JStr h \<Rightarrow> Inr (rx h) | _ \<Rightarrow> Inl TypeError)) of
            Inl e \<Rightarrow> Inl e
          | Inr host_ok \<Rightarrow>
         if \<not> host_ok then Inr None
         else if (case url_rx f of None \<Rightarrow> False | Some rx \<Rightarrow> \<not> rx url_v) then Inr None
         else if (case f_method f of None \<Rightarrow> False | Some m' \<Rightarrow> meth \<noteq> m') then Inr None
         else if \<not> (status_min f \<le> code \<and> code \<le> status_max f) then Inr None
         else if \<not> (min_size f \<le> size_v \<and> size_v \<le> max_size f) then Inr None
         else
         (case ctype_matches ctype (ctype_want f) of
            Inl e \<Rightarrow> Inl e
          | Inr ct_ok \<Rightarrow>
         if \<not> ct_ok then Inr None
         else
         (case format_session_overview env s of
            Inl e \<Rightarrow> Inl e
          | Inr ov \<Rightarrow>
              Inr (Some (ov \<lparr> o_method := JStr meth,
                              o_content_type_full := Some ctype,
                              o_contentLength := Some size_v \<rparr>))))))
     | _ \<Rightarrow> Inl AttributeError))"

text \<open>The loop, most recent record first, leaving when \<^verbatim>\<open>limit\<close> overviews are collected.\<close>

fun search_loop ::
  "pyenv \<Rightarrow> filters \<Rightarrow> session list \<Rightarrow> overview list \<Rightarrow> nat \<Rightarrow> py_exn + (overview list \<times> nat)" where
  "search_loop env f [] out matched_total = Inr (out, matched_total)"
| "search_loop env f (s # ss) out matched_total =
     (case examine env f s of
        Inl e \<Rightarrow> Inl e
      | Inr None \<Rightarrow> search_loop env f ss out matched_total
      | Inr (Some ov) \<Rightarrow>
          if limit f \<le> int (length (out @ [ov])) then Inr (out @ [ov], Suc matched_total)
          else search_loop env f ss (out @ [ov]) (Suc matched_total))"

text \<open>
  Parsing the arguments. \<open>re_compile\<close> is \<^verbatim>\<open>re.compile(pattern, re.I)\<close>, given as the
  \<^verbatim>\<open>search\<close> test of the compiled pattern; \<open>None\<close> is \<^verbatim>\<open>re.error\<close>.
\<close>

definition compile_opt ::
  "(string \<Rightarrow> (string \<Rightarrow> bool) option) \<Rightarrow> string \<Rightarrow> py_exn + (string \<Rightarrow> bool) option" where
  "compile_opt re_compile pat =
     (if pat = [] then Inr None
      else (case re_compile pat of None \<Rightarrow> Inl ReError | Some rx \<Rightarrow> Inr (Some rx)))"

definition parse_filters ::
  "pyenv \<Rightarrow> (string \<Rightarrow> (string \<Rightarrow> bool) option) \<Rightarrow> query \<Rightarrow> py_exn + filters" where
  "parse_filters env re_compile q =
    (let host_pat = arg_or q ''host'' ''host_pattern'';
         url_pat = arg_or q ''url'' ''url_pattern'';
         method_v = py_upper (case map_of q ''method'' of Some m \<Rightarrow> m | None \<Rightarrow> '''')
     in
     case int_arg q ''status_min'' 0 of Inl e \<Rightarrow> Inl e | Inr smin \<Rightarrow>
    (case int_arg q ''status_max'' 999 of Inl e \<Rightarrow> Inl e | Inr smax \<Rightarrow>
    (case int_arg q ''min_size'' 0 of Inl e \<Rightarrow> Inl e | Inr zmin \<Rightarrow>
    (case int_arg q ''max_size'' 1000000000 of Inl e \<Rightarrow> Inl e | Inr zmax \<Rightarrow>
    (case int_arg q ''limit'' 50 of Inl e \<Rightarrow> Inl e | Inr lim_v \<Rightarrow>
    (let since_raw = arg_or q ''since_minutes'' ''minutes'' in
     case (if since_raw \<noteq> []
           then (case int_of_str since_raw of Some i \<Rightarrow> Inr (Some i) | None \<Rightarrow> Inl ValueError)
           else Inr None) of
       Inl e \<Rightarrow> Inl e
     | Inr since0 \<Rightarrow>
    (let since_minutes =
           (case since0 of Some i \<Rightarrow> if i \<noteq> 0 \<and> 360 < i then Some 360 else Some i | None \<Rightarrow> None);
         cutoff =
           (case since_minutes of
              Some i \<Rightarrow> if i \<noteq> 0 then Some (time_time env - real_of_int (i * 60)) else None
            | None \<Rightarrow> None)
     in
     case compile_opt re_compile host_pat of Inl e \<Rightarrow> Inl e | Inr hrx \<Rightarrow>
    (case compile_opt re_compile url_pat of Inl e \<Rightarrow> Inl e | Inr urx \<Rightarrow>
       Inr \<lparr> host_rx = hrx,
             url_rx = urx,
             f_method = (if method_v = [] then None else Some method_v),
             ctype_want = map_of q ''content_type'',
             status_min = smin,
             status_max = smax,
             min_size = zmin,
             max_size = zmax,
             limit = max 1 (min lim_v 500),
             cutoff_ts = cutoff \<rparr>))))))))"

text \<open>
  \<^verbatim>\<open>search_sessions\<close> (GET /api/sessions/search). Both replies have HTTP status 200; the
  one of the \<^verbatim>\<open>except\<close> clause has \<^verbatim>\<open>success\<close> false, \<^verbatim>\<open>total_matched\<close> 0, an empty
  \<^verbatim>\<open>sessions\<close> list and the text of the exception. The echo of the query in the
  successful reply is left out.
\<close>

datatype search_reply =
    Search_ok nat "overview list"
  | Search_error string

definition search_sessions ::
  "pyenv \<Rightarrow> (string \<Rightarrow> (string \<Rightarrow> bool) option) \<Rightarrow> query \<Rightarrow> store \<Rightarrow> search_reply" where
  "search_sessions env re_compile q st =
     (case parse_filters env re_compile q of
        Inl e \<Rightarrow> Search_error (exn_str env e)
      | Inr f \<Rightarrow>
          (case search_loop env f (rev (live_sessions st)) [] 0 of
             Inl e \<Rightarrow> Search_error (exn_str env e)
           | Inr r \<Rightarrow> Search_ok (snd r) (fst r)))"

definition sessions_of :: "search_reply \<Rightarrow> overview list" where
  "sessions_of r = (case r of Search_ok n out \<Rightarrow> out | Search_error msg \<Rightarrow> [])"

text \<open>
  A pattern compiler to evaluate concrete searches with. It stands for \<^verbatim>\<open>re.compile\<close> on
  the patterns used below: a pattern with an unmatched parenthesis is rejected, a pattern
  of plain characters is searched as literal text, ignoring case.
\<close>

fun balanced :: "nat \<Rightarrow> string \<Rightarrow> bool" where
  "balanced n [] = (n = 0)"
| "balanced n (c # cs) =
     (if c = CHR ''('' then balanced (Suc n) cs
      else if c = CHR '')'' then (0 < n \<and> balanced (n - 1) cs)
      else balanced n cs)"

definition literal_compile :: "string \<Rightarrow> (string \<Rightarrow> bool) option" where
  "literal_compile pat =
     (if balanced 0 pat then Some (\<lambda>s. contains (py_lower pat) (py_lower s)) else None)"

section \<open>Content extraction\<close>

subsection \<open>The regular expressions of the pattern catalogue\<close>

text \<open>
  The catalogue of \<^verbatim>\<open>_extract_intelligent_content\<close> uses literal characters, \<^verbatim>\<open>\s\<close>, the
  classes \<^verbatim>\<open>[0-9a-fA-F]\<close>, \<^verbatim>\<open>[^)]\<close>, \<^verbatim>\<open>["\']\<close> and \<^verbatim>\<open>[\.\[]\<close>, and the greedy star on a
  single class (\<^verbatim>\<open>\s+\<close> is \<^verbatim>\<open>\s\s*\<close>, \<^verbatim>\<open>{2}\<close> a repetition written out). Every pattern
  is compiled with \<^verbatim>\<open>re.IGNORECASE\<close>: characters are compared in lower case.
\<close>

datatype cclass = Lit char | Space | Hex | Not_ch char | One_of string

definition is_hex :: "char \<Rightarrow> bool" where
  "is_hex c = (let n = (of_char c :: nat) in
     (48 \<le> n \<and> n \<le> 57) \<or> (65 \<le> n \<and> n \<le> 70) \<or> (97 \<le> n \<and> n \<le> 102))"

definition cclass_ok :: "cclass \<Rightarrow> char \<Rightarrow> bool" where
  "cclass_ok k c =
     (case k of
        Lit p \<Rightarrow> py_lower_char c = py_lower_char p
      | Space \<Rightarrow> is_space c
      | Hex \<Rightarrow> is_hex c
      | Not_ch p \<Rightarrow> py_lower_char c \<noteq> py_lower_char p
      | One_of ps \<Rightarrow> py_lower_char c \<in> set (map py_lower_char ps))"

datatype rx_item = One cclass | Star cclass

type_synonym regex = "rx_item list"

text \<open>
  The length of the match starting at the head of the text, if there is one. A star
  takes as many characters as it can and gives them back one at a time while the rest of
  the pattern fails, as the backtracking matcher of \<^verbatim>\<open>re\<close> does.
\<close>

fun match_here :: "regex \<Rightarrow> string \<Rightarrow> nat option" where
  "match_here [] s = Some 0"
| "match_here (One k # r) [] = None"
| "match_here (One k # r) (c # cs) =
     (if cclass_ok k c then map_option Suc (match_here r cs) else None)"
| "match_here (Star k # r) [] = match_here r []"
| "match_here (Star k # r) (c # cs) =
     (if cclass_ok k c
      then (case match_here (Star k # r) cs of
              Some n \<Rightarrow> Some (Suc n)
            | None \<Rightarrow> match_here r (c # cs))
      else match_here r (c # cs))"

text \<open>
  \<^verbatim>\<open>re.finditer\<close>: the non-overlapping matches from left to right, as pairs of start and
  end offsets. No pattern of the catalogue matches the empty text.
\<close>

function finditer_from :: "regex \<Rightarrow> nat \<Rightarrow> string \<Rightarrow> (nat \<times> nat) list" where
  "finditer_from r pos s =
     (case match_here r s of
        Some n \<Rightarrow>
          (pos, pos + n) #
            (if s = [] then [] else finditer_from r (pos + max n 1) (drop (max n 1) s))
      | None \<Rightarrow> (if s = [] then [] else finditer_from r (Suc pos) (tl s)))"
  by pat_completeness auto
termination
  by (relation "measure (\<lambda>(r, pos, s). length s)") auto

declare finditer_from.simps [simp del]

definition finditer :: "regex \<Rightarrow> string \<Rightarrow> (nat \<times> nat) list" where
  "finditer r s = finditer_from r 0 s"

definition lit :: "string \<Rightarrow> regex" where
  "lit s = map (\<lambda>c. One (Lit c)) s"

definition ws :: regex where
  "ws = [Star Space]"

definition quote :: regex where
  "quote = [One (One_of [CHR 0x22, CHR 0x27])]"

definition security_patterns :: "(regex \<times> string) list" where
  "security_patterns =
     [(lit ''eval'' @ ws @ lit ''('', ''eval()''),
      (lit ''Function'' @ ws @ lit ''('', ''Function()''),
      (lit ''new'' @ [One Space] @ ws @ lit ''Function'' @ ws @ lit ''('', ''new Function()''),
      (lit ''setTimeout'' @ ws @ lit ''('' @ [Star (Not_ch CHR '')'')] @ quote, ''setTimeout with string''),
      (lit ''setInterval'' @ ws @ lit ''('' @ [Star (Not_ch CHR '')'')] @ quote, ''setInterval with string''),
      (lit ''document.write'' @ ws @ lit ''('', ''document.write()''),
      (lit ''innerHTML'' @ ws @ lit ''='', ''innerHTML assignment''),
      (lit ''outerHTML'' @ ws @ lit ''='', ''outerHTML assignment''),
      (lit ''insertAdjacentHTML'' @ ws @ lit ''('', ''insertAdjacentHTML()''),
      (lit ''window.location'' @ ws @ lit ''='', ''window.location redirect''),
      (lit ''document.location'' @ ws @ lit ''='', ''document.location redirect''),
      (lit ''location.href'' @ ws @ lit ''='', ''location.href redirect''),
      (lit ''location.replace'' @ ws @ lit ''('', ''location.replace()''),
      (lit ''createElement'' @ ws @ lit ''('' @ ws @ quote @ lit ''script'', ''createElement script''),
      (lit ''createElement'' @ ws @ lit ''('' @ ws @ quote @ lit ''iframe'', ''createElement iframe''),
      (lit ''appendChild'' @ ws @ lit ''('', ''appendChild()''),
      ([One (Lit (CHR 0x5C)), One (Lit CHR ''x''), One Hex, One Hex], ''hex escape sequences''),
      ([One (Lit (CHR 0x5C)), One (Lit CHR ''u''), One Hex, One Hex, One Hex, One Hex], ''unicode escapes''),
      (lit ''fromCharCode'' @ ws @ lit ''('', ''fromCharCode()''),
      (lit ''charCodeAt'' @ ws @ lit ''('', ''charCodeAt()''),
      (lit ''atob'' @ ws @ lit ''('', ''atob() base64 decode''),
      (lit ''btoa'' @ ws @ lit ''('', ''btoa() base64 encode''),
      (lit ''XMLHttpRequest'', ''XMLHttpRequest''),
      (lit ''fetch'' @ ws @ lit ''('', ''fetch()''),
      (lit ''sendBeacon'' @ ws @ lit ''('', ''sendBeacon()''),
      (lit ''localStorage'' @ ws @ [One (One_of ''.['')], ''localStorage access''),
      (lit ''sessionStorage'' @ ws @ [One (One_of ''.['')], ''sessionStorage access''),
      (lit ''document.cookie'', ''cookie access''),
      (lit ''debugger'' @ ws @ lit '';'', ''debugger statement''),
      (lit ''console'' @ ws @ lit ''.'' @ ws @ lit ''clear'' @ ws @ lit ''('', ''console.clear()'')]"

subsection \<open>Slices and searches with Python's index rules\<close>

text \<open>
  A slice bound: a negative index counts from the end, and every index is clamped to
  the text.
\<close>

definition clamp_index :: "int \<Rightarrow> nat \<Rightarrow> nat" where
  "clamp_index i n = (if i < 0 then nat (max 0 (int n + i)) else min (nat i) n)"

definition py_slice :: "'a list \<Rightarrow> int \<Rightarrow> int \<Rightarrow> 'a list" where
  "py_slice xs i j =
     (let a = clamp_index i (length xs); b = clamp_index j (length xs)
      in take (b - a) (drop a xs))"

definition py_slice_from :: "'a list \<Rightarrow> int \<Rightarrow> 'a list" where
  "py_slice_from xs i = drop (clamp_index i (length xs)) xs"

text \<open>\<^verbatim>\<open>s.find(c, i, j)\<close> and \<^verbatim>\<open>s.rfind(c, i, j)\<close> for a single character; -1 when absent.\<close>

definition py_find :: "string \<Rightarrow> char \<Rightarrow> int \<Rightarrow> int \<Rightarrow> int" where
  "py_find s c i j =
     (let a = clamp_index i (length s); b = clamp_index j (length s)
      in case find (\<lambda>k. s ! k = c) [a..<b] of Some k \<Rightarrow> int k | None \<Rightarrow> - 1)"

definition py_rfind :: "string \<Rightarrow> char \<Rightarrow> int \<Rightarrow> int \<Rightarrow> int" where
  "py_rfind s c i j =
     (let a = clamp_index i (length s); b = clamp_index j (length s)
      in case find (\<lambda>k. s ! k = c) (rev [a..<b]) of Some k \<Rightarrow> int k | None \<Rightarrow> - 1)"

text \<open>\<^verbatim>\<open>sep.join(xs)\<close>.\<close>

fun join :: "string \<Rightarrow> string list \<Rightarrow> string" where
  "join sep [] = []"
| "join sep [x] = x"
| "join sep (x # y # ys) = x @ sep @ join sep (y # ys)"

subsection \<open>The extraction\<close>

record snippet =
  sn_pattern :: string
  sn_code :: string
  sn_position :: nat

record scan_state =
  suspicious_snippets :: "snippet list"
  found_names :: "string list"
  bytes_used :: int

text \<open>The context window around one match, snapped to line boundaries and stripped.\<close>

definition snippet_at :: "string \<Rightarrow> nat \<times> nat \<Rightarrow> string" where
  "snippet_at middle_section m =
     (let context_chars = 150;
          m_start = int (fst m);
          m_end = int (snd m);
          start_v = max 0 (m_start - context_chars);
          end_v = min (int (length middle_section)) (m_end + context_chars);
          ls = py_rfind middle_section (CHR 0x0A) (start_v - 50) m_start;
          line_start = (if ls = - 1 then start_v else ls + 1);
          le = py_find middle_section (CHR 0x0A) m_end (end_v + 50);
          line_end = (if le = - 1 then end_v else le)
      in py_strip (py_slice middle_section line_start line_end))"

text \<open>The body of the inner loop, for one match of one pattern.\<close>

definition record_match :: "nat \<Rightarrow> string \<Rightarrow> string \<Rightarrow> nat \<times> nat \<Rightarrow> scan_state \<Rightarrow> scan_state" where
  "record_match middle_start middle_section pattern_name m st =
     (let code = snippet_at middle_section m in
      if code \<noteq> [] \<and> length code < 500
      then
        (if code \<notin> set (map sn_code (suspicious_snippets st))
         then \<lparr> suspicious_snippets = suspicious_snippets st @
                  [\<lparr> sn_pattern = pattern_name, sn_code = code, sn_position = middle_start + fst m \<rparr>],
                found_names = (if pattern_name \<notin> set (found_names st)
                               then found_names st @ [pattern_name] else found_names st),
                bytes_used = bytes_used st + int (length code) + 50 \<rparr>
         else st)
      else st)"

text \<open>
  The two loops. Each starts an iteration by testing the budget and leaves on
  \<^verbatim>\<open>bytes_used >= pattern_budget\<close>.
\<close>

fun scan_matches ::
  "int \<Rightarrow> nat \<Rightarrow> string \<Rightarrow> string \<Rightarrow> (nat \<times> nat) list \<Rightarrow> scan_state \<Rightarrow> scan_state" where
  "scan_matches pattern_budget middle_start middle_section pattern_name [] st = st"
| "scan_matches pattern_budget middle_start middle_section pattern_name (m # ms) st =
     (if pattern_budget \<le> bytes_used st then st
      else scan_matches pattern_budget middle_start middle_section pattern_name ms
             (record_match middle_start middle_section pattern_name m st))"

fun scan_patterns ::
  "int \<Rightarrow> nat \<Rightarrow> string \<Rightarrow> (regex \<times> string) list \<Rightarrow> scan_state \<Rightarrow> scan_state" where
  "scan_patterns pattern_budget middle_start middle_section [] st = st"
| "scan_patterns pattern_budget middle_start middle_section (p # ps) st =
     (if pattern_budget \<le> bytes_used st then st
      else scan_patterns pattern_budget middle_start middle_section ps
             (scan_matches pattern_budget middle_start middle_section (snd p)
                (finditer (fst p) middle_section) st))"

text \<open>
  One formatted entry, \<^verbatim>\<open>f"[{i}] {pattern} (position ~{position}):\n{code}"\<close>, and the text
  of the first 20 snippets, numbered from 1 and joined by blank lines.
\<close>

definition format_snippet :: "nat \<Rightarrow> snippet \<Rightarrow> string" where
  "format_snippet i sn =
     ''['' @ str_nat i @ ''] '' @ sn_pattern sn @ '' (position ~'' @ str_nat (sn_position sn) @
     ''):'' @ [CHR 0x0A] @ sn_code sn"

definition format_patterns :: "snippet list \<Rightarrow> string" where
  "format_patterns sns =
     join [CHR 0x0A, CHR 0x0A]
       (map (\<lambda>p. format_snippet (fst p) (snd p)) (zip [1..<21] (take 20 sns)))"

record extraction_metadata =
  original_size :: nat
  content_type :: json
  extraction_method :: string
  patterns_found :: "string list"
  patterns_count :: "nat option"
  head_size :: "nat option"
  tail_size :: "nat option"
  patterns_size :: "nat option"
  total_extracted :: "nat option"

record extraction =
  head :: string
  tail :: string
  suspicious_patterns :: string
  metadata :: extraction_metadata

text \<open>\<^verbatim>\<open>_extract_intelligent_content(body_text, content_type, max_total)\<close>.\<close>

definition extract_intelligent_content :: "string \<Rightarrow> json \<Rightarrow> int \<Rightarrow> extraction" where
  "extract_intelligent_content body_text ctype max_total =
    (let body_size = length body_text;
         md = \<lparr> original_size = body_size, content_type = ctype,
                extraction_method = ''intelligent'', patterns_found = [],
                patterns_count = None, head_size = None, tail_size = None,
                patterns_size = None, total_extracted = None \<rparr>
     in
     if body_text = []
     then \<lparr> head = [], tail = [], suspicious_patterns = [], metadata = md \<rparr>
     else if int body_size \<le> max_total
     then \<lparr> head = body_text, tail = [], suspicious_patterns = [],
            metadata = md \<lparr> extraction_method := ''full_content'' \<rparr> \<rparr>
     else
      (let head_n = min 8000 body_size;
           tail_n = min 4000 (body_size - head_n);
           pattern_budget = max_total - int head_n - int tail_n;
           head_v = py_slice body_text 0 (int head_n);
           tail_v = (if head_n + tail_n < body_size then py_slice_from body_text (- int tail_n)
                     else if head_n < body_size then py_slice_from body_text (int head_n)
                     else []);
           middle_start = head_n;
           middle_end = (if head_n + tail_n < body_size then body_size - tail_n else body_size);
           middle_section = py_slice body_text (int middle_start) (int middle_end);
           sc = (if middle_section \<noteq> [] \<and> 0 < pattern_budget
                 then scan_patterns pattern_budget middle_start middle_section security_patterns
                        \<lparr> suspicious_snippets = [], found_names = [], bytes_used = 0 \<rparr>
                 else \<lparr> suspicious_snippets = [], found_names = [], bytes_used = 0 \<rparr>);
           found = (suspicious_snippets sc \<noteq> []);
           patterns_v = (if found then format_patterns (suspicious_snippets sc) else [])
       in \<lparr> head = head_v, tail = tail_v, suspicious_patterns = patterns_v,
            metadata = md \<lparr>
              patterns_found := (if found then found_names sc else []),
              patterns_count := (if found then Some (length (suspicious_snippets sc)) else None),
              head_size := Some (length head_v),
              tail_size := Some (length tail_v),
              patterns_size := Some (length patterns_v),
              total_extracted := Some (length head_v + length tail_v + length patterns_v) \<rparr> \<rparr>))"

section \<open>Sample inputs\<close>

text \<open>
  Payloads to evaluate concrete calls on, and the record the store holds after one of
  them has been ingested into the empty store.
\<close>

definition sample_record :: "json \<Rightarrow> session" where
  "sample_record v = last (live_sessions (run [Ingest sample_env (Some v)]))"

definition error_payload :: json where
  "error_payload = JDict [(''id'', JInt 7), (''host'', JStr ''example.com''), (''statusCode'', JInt 500)]"

definition ok_payload :: json where
  "ok_payload = JDict [(''id'', JInt 8), (''host'', JStr ''example.com''), (''statusCode'', JInt 200)]"

definition critical_phishing_payload :: json where
  "critical_phishing_payload =
     JDict [(''id'', JInt 9), (''statusCode'', JInt 200),
            (''ekfiddleComments'', JStr ''Critical: phishing page'')]"

definition empty_id_payload :: json where
  "empty_id_payload = JDict [(''id'', JStr ''''), (''statusCode'', JInt 200)]"

definition older_payload :: json where
  "older_payload =
     JDict [(''id'', JInt 7), (''statusCode'', JInt 200),
            (''requestHeaders'', JDict [(''X-Seq'', JStr ''first'')])]"

definition newer_payload :: json where
  "newer_payload =
     JDict [(''id'', JInt 7), (''statusCode'', JInt 200),
            (''requestHeaders'', JDict [(''X-Seq'', JStr ''second'')])]"

definition shared_id_store :: store where
  "shared_id_store =
     run [Ingest sample_env (Some older_payload), Ingest sample_env (Some newer_payload),
          Ingest sample_env (Some ok_payload)]"

definition two_requests :: "(pyenv \<times> json option) list" where
  "two_requests = [(sample_env, Some error_payload), (sample_env, Some ok_payload)]"

definition bad_host_query :: query where
  "bad_host_query = [(''host'', ''(''), (''status_min'', ''200'')]"

definition plain_query :: query where
  "plain_query = [(''status_min'', ''200'')]"

definition second_alias_payload :: json where
  "second_alias_payload =
     JDict [(''id'', JNull), (''session_id'', JInt 42), (''fiddler_session_id'', JStr ''x'')]"

definition failing_payload :: json where
  "failing_payload = JDict [(''id'', JInt 7), (''url'', JInt 5)]"

definition flagged_store :: store where
  "flagged_store = run [Ingest sample_env (Some error_payload)]"

section \<open>Properties\<close>

subsection \<open>Bounded buffers\<close>

lemma deque_append_drop:
  assumes "length q \<le> n"
  shows "deque_append n q x = drop (length (q @ [x]) - n) (q @ [x])"
proof (cases "length q = n")
  case True
  then have l: "length (q @ [x]) - n = Suc 0" by simp
  have t: "drop (Suc 0) ys = tl ys" for ys :: "'a list" by (simp add: drop_Suc)
  have "deque_append n q x = tl (q @ [x])" using True by (simp add: deque_append_def Let_def)
  then show ?thesis by (simp only: l t)
next
  case False
  with assms have "length (q @ [x]) - n = 0" by simp
  then show ?thesis using False assms by (simp add: deque_append_def Let_def del: length_append)
qed

lemma set_deque_append: "set (deque_append n q x) \<subseteq> insert x (set q)"
proof -
  have "set (tl (q @ [x])) \<subseteq> set (q @ [x])" by (rule list.set_sel(2) [THEN subsetI]) simp
  then show ?thesis by (auto simp: deque_append_def Let_def)
qed

lemma drop_window:
  "drop (length (drop (length xs - n) xs @ [x]) - n) (drop (length xs - n) xs @ [x]) =
   drop (length (xs @ [x]) - n) (xs @ [x])"
proof (cases "length xs < n")
  case True
  then show ?thesis by simp
next
  case False
  define k where "k = length xs - n"
  have k: "k \<le> length xs" "length xs - k = n" "Suc (length xs) - n = Suc k"
    using False by (auto simp: k_def)
  have "drop (length (drop k xs @ [x]) - n) (drop k xs @ [x]) = drop (Suc 0) (drop k (xs @ [x]))"
    using k by simp
  also have "\<dots> = drop (Suc k) (xs @ [x])" by (simp del: drop_append)
  finally show ?thesis using k by (simp add: k_def)
qed

lemma receive_live:
  "live_sessions (snd (receive_session env data st)) =
     (case ingested_record (env, data) of
        None \<Rightarrow> live_sessions st
      | Some s \<Rightarrow> deque_append live_maxlen (live_sessions st) s)"
  by (auto simp: receive_session_def ingested_record_def split: option.splits json.splits sum.splits)

lemma receive_suspicious:
  "suspicious_sessions (snd (receive_session env data st)) =
     (case ingested_record (env, data) of
        None \<Rightarrow> suspicious_sessions st
      | Some s \<Rightarrow>
          if is_immediately_suspicious s
          then deque_append suspicious_maxlen (suspicious_sessions st) s
          else suspicious_sessions st)"
  by (auto simp: receive_session_def ingested_record_def split: option.splits json.splits sum.splits)

lemma step_live_le:
  assumes "length (live_sessions st) \<le> live_maxlen"
  shows "length (live_sessions (step st opn)) \<le> live_maxlen"
proof (cases opn)
  case (Ingest env data)
  with assms show ?thesis
    by (simp add: receive_live deque_append_def Let_def split: option.splits)
next
  case (Clear body)
  with assms show ?thesis
    by (simp add: clear_sessions_def Let_def split: option.splits json.splits)
qed

lemma foldl_live_le:
  "length (live_sessions st) \<le> live_maxlen \<Longrightarrow>
   length (live_sessions (foldl step st ops)) \<le> live_maxlen"
  by (induction ops arbitrary: st) (auto simp: step_live_le)

lemma ingest_window:
  "live_sessions st = drop (length acc - live_maxlen) acc \<Longrightarrow>
   live_sessions (foldl step st (ingest_ops rs)) =
     drop (length (acc @ ingested rs) - live_maxlen) (acc @ ingested rs)"
proof (induction rs arbitrary: st acc)
  case Nil
  then show ?case by (simp add: ingest_ops_def ingested_def)
next
  case (Cons r rs)
  show ?case
  proof (cases "ingested_record r")
    case None
    then have "live_sessions (step st (Ingest (fst r) (snd r))) = drop (length acc - live_maxlen) acc"
      using Cons.prems receive_live [of "fst r" "snd r" st] by simp
    from Cons.IH [OF this] None show ?thesis
      by (simp add: ingest_ops_def ingested_def)
  next
    case (Some s)
    have le: "length (live_sessions st) \<le> live_maxlen" using Cons.prems by simp
    have "live_sessions (step st (Ingest (fst r) (snd r))) =
            deque_append live_maxlen (live_sessions st) s"
      using Some receive_live [of "fst r" "snd r" st] by simp
    also have "\<dots> = drop (length (acc @ [s]) - live_maxlen) (acc @ [s])"
      using deque_append_drop [OF le, of s] Cons.prems drop_window [of acc live_maxlen s] by simp
    finally have "live_sessions (step st (Ingest (fst r) (snd r))) =
        drop (length (acc @ [s]) - live_maxlen) (acc @ [s])" .
    from Cons.IH [OF this] Some show ?thesis
      by (simp add: ingest_ops_def ingested_def)
  qed
qed

text \<open>
  Claim C1. Whatever the history of ingests and clears, the live buffer never holds more
  than 5000 records; and after a sequence of ingests into the empty store it holds
  exactly the last \<open>min 5000 n\<close> of the \<open>n\<close> records ingested, in ingestion order (the
  oldest having been dropped first).
\<close>

theorem bounded_live_buffer:
  "length (live_sessions (run ops)) \<le> 5000 \<and>
   live_sessions (run (ingest_ops rs)) = drop (length (ingested rs) - 5000) (ingested rs) \<and>
   length (live_sessions (run (ingest_ops rs))) = min 5000 (length (ingested rs))"
proof -
  have a: "length (live_sessions (run ops)) \<le> 5000"
    using foldl_live_le [of empty_store ops] by (simp add: run_def empty_store_def live_maxlen_def)
  have b: "live_sessions (run (ingest_ops rs)) = drop (length (ingested rs) - 5000) (ingested rs)"
    using ingest_window [of empty_store "[]" rs] by (simp add: run_def empty_store_def live_maxlen_def)
  from a b show ?thesis by (simp add: min_def)
qed

lemma ingested_replicate:
  "ingested_record r = Some s \<Longrightarrow> ingested (replicate n r) = replicate n s"
  by (induction n) (simp_all add: ingested_def)

theorem bounded_live_buffer_witness:
  "live_sessions (run (ingest_ops (replicate 5001 (sample_env, Some ok_payload)))) =
     replicate 5000 (sample_record ok_payload) \<and>
   length (live_sessions (run (ingest_ops (replicate 5001 (sample_env, Some ok_payload))))) = 5000"
proof -
  have "ingested_record (sample_env, Some ok_payload) = Some (sample_record ok_payload)"
    by code_simp
  then have "ingested (replicate 5001 (sample_env, Some ok_payload)) =
      replicate 5001 (sample_record ok_payload)"
    by (rule ingested_replicate)
  with bounded_live_buffer [of "[]" "replicate 5001 (sample_env, Some ok_payload)"]
  show ?thesis by simp
qed

subsection \<open>Clearing\<close>

text \<open>
  Claim C9. A clear that does not ask for it (\<^verbatim>\<open>clear_suspicious\<close> absent or false, or a
  request that fails) leaves the suspicious buffer as it was, contents and size; the
  buffer is emptied exactly when the request body is a dict whose \<^verbatim>\<open>clear_suspicious\<close> is
  true.
\<close>

theorem clear_isolation:
  "suspicious_sessions (snd (clear_sessions body st)) =
     (if requests_suspicious_clear body then [] else suspicious_sessions st) \<and>
   length (suspicious_sessions (snd (clear_sessions body st))) =
     (if requests_suspicious_clear body then 0 else length (suspicious_sessions st))"
  by (auto simp: clear_sessions_def requests_suspicious_clear_def por_def dget_default_def Let_def
      split: option.splits json.splits if_splits)

theorem clear_isolation_witness:
  "suspicious_sessions flagged_store = [sample_record error_payload] \<and>
   suspicious_sessions (snd (clear_sessions (Some (JDict [])) flagged_store)) =
     [sample_record error_payload] \<and>
   suspicious_sessions
     (snd (clear_sessions (Some (JDict [(''clear_suspicious'', JBool True)])) flagged_store)) = []"
proof -
  have s: "suspicious_sessions flagged_store = [sample_record error_payload]" by code_simp
  have a: "requests_suspicious_clear (Some (JDict [])) = False" by code_simp
  have b: "requests_suspicious_clear (Some (JDict [(''clear_suspicious'', JBool True)])) = True"
    by code_simp
  from clear_isolation [of "Some (JDict [])" flagged_store]
       clear_isolation [of "Some (JDict [(''clear_suspicious'', JBool True)])" flagged_store]
       s a b
  show ?thesis by simp
qed

subsection \<open>The flagged buffer and the live buffer\<close>

lemma susp_subset:
  "set (suspicious_sessions (foldl step st (ingest_ops rs))) \<subseteq>
     set (suspicious_sessions st) \<union> set (ingested rs)"
proof (induction rs arbitrary: st)
  case Nil
  then show ?case by (simp add: ingest_ops_def)
next
  case (Cons r rs)
  have "set (suspicious_sessions (step st (Ingest (fst r) (snd r)))) \<subseteq>
          set (suspicious_sessions st) \<union> set (ingested [r])"
    using set_deque_append [of suspicious_maxlen "suspicious_sessions st"]
    by (auto simp: receive_suspicious ingested_def split: option.splits)
  moreover have "ingested (r # rs) = ingested [r] @ ingested rs"
    by (simp add: ingested_def split: option.splits)
  ultimately show ?case
    using Cons.IH [of "step st (Ingest (fst r) (snd r))"] by (auto simp: ingest_ops_def)
qed

text \<open>
  Claim C6, as stated, fails: a record with status 500 is appended to both buffers, and a
  clear that does not ask for the suspicious buffer then empties the live buffer only.
  (The suspicious buffer is meant to keep its records longer than the live one.)
\<close>

theorem flagged_outlives_live_counterexample:
  "suspicious_sessions (run [Ingest sample_env (Some error_payload), Clear (Some (JDict []))]) =
     [sample_record error_payload] \<and>
   live_sessions (run [Ingest sample_env (Some error_payload), Clear (Some (JDict []))]) = []"
  by code_simp

text \<open>
  Claim C6, amended. As long as the store has only ingested, from empty, and no more
  than 5000 records (no eviction from the live buffer, no clear), every record of the
  suspicious buffer is in the live buffer.
\<close>

theorem flagged_within_live_until_overflow:
  assumes "length (ingested rs) \<le> 5000"
  shows "set (suspicious_sessions (run (ingest_ops rs))) \<subseteq> set (live_sessions (run (ingest_ops rs)))"
proof -
  have "live_sessions (run (ingest_ops rs)) = ingested rs"
    using ingest_window [of empty_store "[]" rs] assms
    by (simp add: run_def empty_store_def live_maxlen_def)
  moreover have "set (suspicious_sessions (run (ingest_ops rs))) \<subseteq> set (ingested rs)"
    using susp_subset [of empty_store rs] by (simp add: run_def empty_store_def)
  ultimately show ?thesis by simp
qed

theorem flagged_within_live_witness:
  "length (ingested two_requests) \<le> 5000 \<and>
   suspicious_sessions (run (ingest_ops two_requests)) = [sample_record error_payload] \<and>
   set (suspicious_sessions (run (ingest_ops two_requests))) \<subseteq>
     set (live_sessions (run (ingest_ops two_requests)))"
proof -
  have h: "length (ingested two_requests) \<le> 5000" by code_simp
  have s: "suspicious_sessions (run (ingest_ops two_requests)) = [sample_record error_payload]"
    by code_simp
  from flagged_within_live_until_overflow [OF h] h s show ?thesis by simp
qed

subsection \<open>Lookup by id\<close>

lemma find_last_match:
  assumes "\<forall>x\<in>set post. \<not> P x" and "P s"
  shows "find P (rev (pre @ s # post)) = Some s"
  using assms by (induction post rule: rev_induct) auto

text \<open>
  Claim C10. When the live buffer holds a record \<open>s\<close> with the requested id and no record
  ingested after it has that id, the lookup loop returns \<open>s\<close>, however many older records
  share the id; the headers endpoint answers with the headers of \<open>s\<close>.
\<close>

theorem lookup_most_recent:
  assumes "live_sessions st = pre @ s # post"
    and "sid s = session_id"
    and "\<forall>x\<in>set post. sid x \<noteq> session_id"
  shows "session_by_id st session_id = Some s \<and>
         get_session_headers st session_id =
           Headers_found session_id (requestHeaders s) (responseHeaders s)"
proof -
  have "find (\<lambda>x. sid x = session_id) (rev (pre @ s # post)) = Some s"
    by (rule find_last_match) (use assms in auto)
  then show ?thesis by (simp add: session_by_id_def get_session_headers_def assms(1))
qed

theorem lookup_most_recent_witness:
  "live_sessions shared_id_store =
     [sample_record older_payload] @ sample_record newer_payload # [sample_record ok_payload] \<and>
   session_by_id shared_id_store ''7'' = Some (sample_record newer_payload) \<and>
   get_session_headers shared_id_store ''7'' =
     Headers_found ''7'' (JDict [(''X-Seq'', JStr ''second'')]) (JDict [])"
proof -
  have h1: "live_sessions shared_id_store =
     [sample_record older_payload] @ sample_record newer_payload # [sample_record ok_payload]"
    by code_simp
  have h2: "sid (sample_record newer_payload) = ''7''" by code_simp
  have "sid (sample_record ok_payload) \<noteq> ''7''" by code_simp
  then have h3: "\<forall>x\<in>set [sample_record ok_payload]. sid x \<noteq> ''7''" by simp
  have h4: "requestHeaders (sample_record newer_payload) = JDict [(''X-Seq'', JStr ''second'')]"
    by code_simp
  have h5: "responseHeaders (sample_record newer_payload) = JDict []" by code_simp
  from lookup_most_recent [OF h1 h2 h3] h1 h4 h5 show ?thesis by simp
qed

subsection \<open>Normalization\<close>

lemma first_alias_chain:
  "first_alias env d [''id'', ''session_id'', ''fiddler_session_id''] = alias_sid env d"
  by (simp add: alias_sid_def)

lemma normalize_try_sid:
  assumes "normalize_try env d = Inr s"
  shows "sid s = (case alias_sid env d of Some a \<Rightarrow> a
                  | None \<Rightarrow> ''missing-id-'' @ str_int (py_trunc (time_time env * 1000)))"
proof -
  from assms obtain sid_v where
    a: "(case alias_sid env d of
             Some s \<Rightarrow> Inr s
           | None \<Rightarrow>
               if sliceable (dget_default d ''url'' (JStr ''unknown''))
               then Inr (''missing-id-'' @ str_int (py_trunc (time_time env * 1000)))
               else Inl TypeError) = Inr sid_v" and b: "sid s = sid_v"
    unfolding normalize_try_def Let_def by (auto split: sum.splits)
  from a b show ?thesis by (auto split: option.splits if_splits)
qed

lemma normalize_try_finite:
  assumes "normalize_try env d = Inr s"
  shows "\<exists>t. received_at s = Fin t"
proof -
  from assms obtain z where "utc_iso_z env (received_at s) = Inr z"
    unfolding normalize_try_def Let_def by (auto split: sum.splits)
  then show ?thesis by (cases "received_at s") (auto simp: utc_iso_z_def)
qed

lemma normalize_session_dict:
  "normalize_session env (JDict d) =
     Inr (case normalize_try env d of Inr s \<Rightarrow> s | Inl e \<Rightarrow> normalize_fallback env d e)"
  by (simp add: normalize_session_def split: sum.splits)

lemma fallback_sid:
  "sid (normalize_fallback env d e) =
     (case alias_sid env d of Some a \<Rightarrow> a
      | None \<Rightarrow> ''error-'' @ str_int (py_trunc (time_time_err_id env * 1000)))"
  unfolding normalize_fallback_def Let_def first_alias_chain by simp

text \<open>
  Claim C7. Normalizing a dict always returns a record, and its id is the \<^verbatim>\<open>str()\<close> of
  the value under the first of \<^verbatim>\<open>id\<close>, \<^verbatim>\<open>session_id\<close>, \<^verbatim>\<open>fiddler_session_id\<close> that is
  present and not \<^verbatim>\<open>None\<close>. Only when there is none is the id made from the clock:
  \<^verbatim>\<open>missing-id-<ms>\<close> when the \<^verbatim>\<open>try\<close> block completes, \<^verbatim>\<open>error-<ms>\<close> when it raised.
\<close>

theorem id_preservation:
  "\<exists>s. normalize_session env (JDict d) = Inr s \<and>
     sid s =
       (if present d ''id'' then py_str env (dget d ''id'')
        else if present d ''session_id'' then py_str env (dget d ''session_id'')
        else if present d ''fiddler_session_id'' then py_str env (dget d ''fiddler_session_id'')
        else (case normalize_try env d of
                Inr s' \<Rightarrow> ''missing-id-'' @ str_int (py_trunc (time_time env * 1000))
              | Inl e \<Rightarrow> ''error-'' @ str_int (py_trunc (time_time_err_id env * 1000))))"
proof (cases "normalize_try env d")
  case (Inl e)
  then show ?thesis
    by (simp add: normalize_session_dict fallback_sid alias_sid_def)
next
  case (Inr s)
  then show ?thesis
    using normalize_try_sid [OF Inr] by (simp add: normalize_session_dict alias_sid_def)
qed

theorem id_preservation_witness:
  "\<exists>s. normalize_session sample_env second_alias_payload = Inr s \<and> sid s = ''42''"
proof -
  have a: "present [(''id'', JNull), (''session_id'', JInt 42), (''fiddler_session_id'', JStr ''x'')] ''id'' = False"
    by code_simp
  have b: "present [(''id'', JNull), (''session_id'', JInt 42), (''fiddler_session_id'', JStr ''x'')] ''session_id'' = True"
    by code_simp
  have c: "py_str sample_env (dget [(''id'', JNull), (''session_id'', JInt 42), (''fiddler_session_id'', JStr ''x'')] ''session_id'') = ''42''"
    by code_simp
  from id_preservation [of sample_env "[(''id'', JNull), (''session_id'', JInt 42), (''fiddler_session_id'', JStr ''x'')]"]
  show ?thesis unfolding second_alias_payload_def a b c by simp
qed

text \<open>
  Claim C8, as stated, fails on the non-empty id: a payload whose \<^verbatim>\<open>id\<close> is the empty
  string is normalized to a record whose id is the empty string (the code tests the
  alias for \<^verbatim>\<open>None\<close> only and keeps what the payload supplies).
\<close>

theorem empty_id_counterexample:
  "(case normalize_session sample_env empty_id_payload of
      Inr s \<Rightarrow> sid s
    | Inl e \<Rightarrow> ''raised'') = []"
  by code_simp

text \<open>
  Claim C8, amended. On every dict normalization returns a record and never raises; the
  record's \<^verbatim>\<open>received_at\<close> is finite; its id is non-empty unless the first alias that is
  present and not \<^verbatim>\<open>None\<close> converts to the empty string; and when the \<^verbatim>\<open>try\<close> block raises
  \<open>e\<close> the record is the minimal one, with \<^verbatim>\<open>normalization_error: <e>\<close> in
  \<^verbatim>\<open>ekfiddleComments\<close>, status 0, empty bodies, and the id taken from the aliases when one
  is there and generated (\<^verbatim>\<open>error-<ms>\<close>) only otherwise.
\<close>

theorem normalize_never_raises:
  "\<exists>s. normalize_session env (JDict d) = Inr s \<and>
     (\<exists>t. received_at s = Fin t) \<and>
     (alias_sid env d = Some [] \<or> sid s \<noteq> []) \<and>
     (case normalize_try env d of
        Inr s' \<Rightarrow> s = s'
      | Inl e \<Rightarrow>
          ekfiddleComments s = JStr (''normalization_error: '' @ exn_str env e) \<and>
          statusCode s = 0 \<and> responseBody s = JStr [] \<and> requestBody s = JStr [] \<and>
          sid s = (case first_alias env d [''id'', ''session_id'', ''fiddler_session_id''] of
                     Some a \<Rightarrow> a
                   | None \<Rightarrow> ''error-'' @ str_int (py_trunc (time_time_err_id env * 1000))))"
proof (cases "normalize_try env d")
  case (Inl e)
  have "alias_sid env d = Some [] \<or> sid (normalize_fallback env d e) \<noteq> []"
    by (cases "alias_sid env d") (auto simp: fallback_sid)
  then show ?thesis using Inl
    by (simp add: normalize_session_dict) (simp add: normalize_fallback_def Let_def)
next
  case (Inr s)
  have "alias_sid env d = Some [] \<or> sid s \<noteq> []"
    using normalize_try_sid [OF Inr] by (cases "alias_sid env d") auto
  then show ?thesis using Inr normalize_try_finite [OF Inr]
    by (simp add: normalize_session_dict)
qed

theorem normalize_never_raises_witness:
  "\<exists>s. normalize_session sample_env failing_payload = Inr s \<and>
        (\<exists>t. received_at s = Fin t) \<and> sid s = ''7'' \<and>
        ekfiddleComments s = JStr ''normalization_error: error'' \<and> statusCode s = 0"
proof -
  have a: "normalize_try sample_env [(''id'', JInt 7), (''url'', JInt 5)] = Inl AttributeError"
    by code_simp
  have b: "first_alias sample_env [(''id'', JInt 7), (''url'', JInt 5)]
             [''id'', ''session_id'', ''fiddler_session_id''] = Some ''7''"
    by code_simp
  have c: "exn_str sample_env AttributeError = ''error''" by code_simp
  from normalize_never_raises [of sample_env "[(''id'', JInt 7), (''url'', JInt 5)]"]
  show ?thesis unfolding failing_payload_def a b using c by auto
qed

subsection \<open>Risk classification\<close>

text \<open>
  Claim C3, as stated, fails on the flag: for a record without annotation and with
  status 500 the flag is \<^verbatim>\<open>error_status\<close>, where the same record with status 200 has no
  flag. (The code adds this flag on purpose, as informational.)
\<close>

theorem error_status_flag_counterexample:
  "map_sum id flag (quick_risk_assessment (sample_record error_payload)) =
     Inr (Some ''error_status'') \<and>
   map_sum id flag (quick_risk_assessment (sample_record ok_payload)) = Inr None"
  by code_simp

text \<open>
  Claim C3, amended. For every record whose annotation is empty, the score is 0.0 and
  the level LOW whatever the status; the flag is empty when the status is below 400, and
  for a status of 400 or more the flag is \<^verbatim>\<open>error_status\<close> and one informational reason
  is given.
\<close>

theorem no_annotation_assessment:
  assumes "ekfiddle_text s = Inr []"
  shows "quick_risk_assessment s =
           Inr \<lparr> score = 0, level = LOW,
                 flag = (if 400 \<le> statusCode s then Some ''error_status'' else None),
                 reasons = (if 400 \<le> statusCode s
                            then [''HTTP error status '' @ str_int (statusCode s) @
                                  '' (informational only)'']
                            else []) \<rparr>"
  using assms by (simp add: quick_risk_assessment_def)

theorem no_annotation_witness:
  "ekfiddle_text (sample_record error_payload) = Inr [] \<and>
   quick_risk_assessment (sample_record error_payload) =
     Inr \<lparr> score = 0, level = LOW, flag = Some ''error_status'',
           reasons = [''HTTP error status 500 (informational only)''] \<rparr>"
proof -
  have h: "ekfiddle_text (sample_record error_payload) = Inr []" by code_simp
  have c: "statusCode (sample_record error_payload) = 500" by code_simp
  have d: "str_int 500 = ''500''" by code_simp
  from no_annotation_assessment [OF h] h c d show ?thesis by simp
qed

text \<open>
  Claim C4 does not hold of the code: for the annotation \<^verbatim>\<open>Critical: phishing page\<close> the
  leading token sets score 1.0 and level CRITICAL, and the keyword scan, which keeps the
  score with \<^verbatim>\<open>max\<close>, then assigns level HIGH.
\<close>

theorem critical_lowered_by_phishing_keyword:
  "severity_token (py_lower ''Critical: phishing page'') = (1, CRITICAL) \<and>
   map_sum id (\<lambda>a. (score a, level a))
     (quick_risk_assessment (sample_record critical_phishing_payload)) = Inr (1, HIGH)"
  by code_simp

subsection \<open>Search with a malformed pattern\<close>

text \<open>
  Claim C5, as stated, fails: with one record in the store that the status filter
  alone lets through, adding a malformed host pattern makes the search return the error
  reply, which carries no session.
\<close>

theorem malformed_pattern_counterexample:
  "search_sessions sample_env literal_compile bad_host_query
     (run [Ingest sample_env (Some ok_payload)]) =
     Search_error ''missing ), unterminated subpattern at position 0'' \<and>
   map o_id (sessions_of (search_sessions sample_env literal_compile plain_query
     (run [Ingest sample_env (Some ok_payload)]))) = [''8'']"
  by code_simp

text \<open>
  Claim C5, amended. When the host pattern or the URL pattern of a search is not a
  valid regular expression, the call does not raise: it returns the error reply (HTTP
  200, \<^verbatim>\<open>success\<close> false, the text of the error), with no session in it, whatever the
  other filters and the store are.
\<close>

theorem malformed_pattern_fails_search:
  assumes "(arg_or q ''host'' ''host_pattern'' \<noteq> [] \<and>
            re_compile (arg_or q ''host'' ''host_pattern'') = None) \<or>
           (arg_or q ''url'' ''url_pattern'' \<noteq> [] \<and>
            re_compile (arg_or q ''url'' ''url_pattern'') = None)"
  shows "(\<exists>msg. search_sessions env re_compile q st = Search_error msg) \<and>
         sessions_of (search_sessions env re_compile q st) = []"
proof -
  have "\<exists>e. parse_filters env re_compile q = Inl e"
    using assms unfolding parse_filters_def Let_def compile_opt_def
    by (auto split: sum.splits option.splits)
  then show ?thesis by (auto simp: search_sessions_def sessions_of_def)
qed

theorem malformed_pattern_witness:
  "(\<exists>msg. search_sessions sample_env literal_compile bad_host_query
            (run [Ingest sample_env (Some ok_payload)]) = Search_error msg) \<and>
   sessions_of (search_sessions sample_env literal_compile bad_host_query
                  (run [Ingest sample_env (Some ok_payload)])) = []"
proof -
  have h: "(arg_or bad_host_query ''host'' ''host_pattern'' \<noteq> [] \<and>
            literal_compile (arg_or bad_host_query ''host'' ''host_pattern'') = None) \<or>
           (arg_or bad_host_query ''url'' ''url_pattern'' \<noteq> [] \<and>
            literal_compile (arg_or bad_host_query ''url'' ''url_pattern'') = None)"
    by (simp add: bad_host_query_def arg_or_def literal_compile_def)
  from malformed_pattern_fails_search [OF h] show ?thesis by simp
qed

subsection \<open>The extraction budget\<close>

lemma length_str_nat: "0 < k \<Longrightarrow> n < 10 ^ k \<Longrightarrow> length (str_nat n) \<le> k"
proof (induction k arbitrary: n)
  case 0
  then show ?case by simp
next
  case (Suc k)
  show ?case
  proof (cases "n < 10")
    case True
    then show ?thesis by (simp add: str_nat.simps [of n])
  next
    case False
    with Suc.prems have k: "0 < k" by (cases k) auto
    have "n div 10 < 10 ^ k" using Suc.prems by (simp add: less_mult_imp_div_less mult.commute)
    from Suc.IH [OF k this] False show ?thesis by (simp add: str_nat.simps [of n])
  qed
qed

lemma match_here_le: "match_here r s = Some n \<Longrightarrow> n \<le> length s"
  by (induction r s arbitrary: n rule: match_here.induct)
     (auto split: if_splits option.splits)

lemma names_short: "\<forall>p\<in>set security_patterns. length (snd p) \<le> 26"
  by (simp add: security_patterns_def)

lemma finditer_from_range:
  "m \<in> set (finditer_from r pos s) \<Longrightarrow> fst m \<le> pos + length s"
proof (induction r pos s rule: finditer_from.induct)
  case (1 r pos s)
  show ?case
  proof (cases "match_here r s")
    case None
    with "1.prems" have ne: "s \<noteq> []" and m: "m \<in> set (finditer_from r (Suc pos) (tl s))"
      by (auto simp: finditer_from.simps [of r pos s] split: if_splits)
    from "1.IH"(1) [OF None ne m] ne show ?thesis by (cases s) auto
  next
    case (Some n)
    show ?thesis
    proof (cases "m = (pos, pos + n)")
      case True
      then show ?thesis by simp
    next
      case False
      with "1.prems" Some have ne: "s \<noteq> []"
        and m: "m \<in> set (finditer_from r (pos + max n 1) (drop (max n 1) s))"
        by (auto simp: finditer_from.simps [of r pos s] split: if_splits)
      have "max n 1 \<le> length s"
        using match_here_le [OF Some] ne by (cases s) auto
      with "1.IH"(2) [OF Some ne m] show ?thesis by simp
    qed
  qed
qed

lemma finditer_range: "m \<in> set (finditer r s) \<Longrightarrow> fst m \<le> length s"
  using finditer_from_range [of m r 0 s] by (simp add: finditer_def)

lemma record_match_inv:
  assumes "\<forall>sn\<in>set (suspicious_snippets st).
             length (sn_code sn) < 500 \<and> length (sn_pattern sn) \<le> 26 \<and> sn_position sn \<le> bound"
    and "length name \<le> 26" and "mstart + fst m \<le> bound"
  shows "\<forall>sn\<in>set (suspicious_snippets (record_match mstart middle name m st)).
             length (sn_code sn) < 500 \<and> length (sn_pattern sn) \<le> 26 \<and> sn_position sn \<le> bound"
proof (cases "snippet_at middle m \<noteq> [] \<and> length (snippet_at middle m) < 500 \<and>
              snippet_at middle m \<notin> set (map sn_code (suspicious_snippets st))")
  case True
  then have "suspicious_snippets (record_match mstart middle name m st) =
      suspicious_snippets st @
        [\<lparr> sn_pattern = name, sn_code = snippet_at middle m, sn_position = mstart + fst m \<rparr>]"
    by (simp add: record_match_def Let_def)
  with assms True show ?thesis by simp
next
  case False
  then have "record_match mstart middle name m st = st"
    by (auto simp: record_match_def Let_def)
  with assms show ?thesis by simp
qed

lemma scan_matches_inv:
  assumes "\<forall>sn\<in>set (suspicious_snippets st).
             length (sn_code sn) < 500 \<and> length (sn_pattern sn) \<le> 26 \<and> sn_position sn \<le> bound"
    and "length name \<le> 26" and "\<forall>m\<in>set ms. mstart + fst m \<le> bound"
  shows "\<forall>sn\<in>set (suspicious_snippets (scan_matches budget mstart middle name ms st)).
             length (sn_code sn) < 500 \<and> length (sn_pattern sn) \<le> 26 \<and> sn_position sn \<le> bound"
  using assms
proof (induction ms arbitrary: st)
  case Nil
  then show ?case by simp
next
  case (Cons m ms)
  have "\<forall>sn\<in>set (suspicious_snippets (record_match mstart middle name m st)).
             length (sn_code sn) < 500 \<and> length (sn_pattern sn) \<le> 26 \<and> sn_position sn \<le> bound"
    by (rule record_match_inv) (use Cons.prems in auto)
  from Cons.IH [OF this] Cons.prems show ?case by simp
qed

lemma scan_patterns_inv:
  assumes "\<forall>sn\<in>set (suspicious_snippets st).
             length (sn_code sn) < 500 \<and> length (sn_pattern sn) \<le> 26 \<and> sn_position sn \<le> bound"
    and "\<forall>p\<in>set ps. length (snd p) \<le> 26" and "mstart + length middle \<le> bound"
  shows "\<forall>sn\<in>set (suspicious_snippets (scan_patterns budget mstart middle ps st)).
             length (sn_code sn) < 500 \<and> length (sn_pattern sn) \<le> 26 \<and> sn_position sn \<le> bound"
  using assms
proof (induction ps arbitrary: st)
  case Nil
  then show ?case by simp
next
  case (Cons p ps)
  have r: "\<forall>m\<in>set (finditer (fst p) middle). mstart + fst m \<le> bound"
  proof
    fix m assume "m \<in> set (finditer (fst p) middle)"
    from finditer_range [OF this] Cons.prems(3) show "mstart + fst m \<le> bound" by simp
  qed
  have n: "length (snd p) \<le> 26" using Cons.prems(2) by simp
  have "\<forall>sn\<in>set (suspicious_snippets
            (scan_matches budget mstart middle (snd p) (finditer (fst p) middle) st)).
          length (sn_code sn) < 500 \<and> length (sn_pattern sn) \<le> 26 \<and> sn_position sn \<le> bound"
    by (rule scan_matches_inv [OF Cons.prems(1) n r])
  from Cons.IH [OF this] Cons.prems show ?case by simp
qed

lemma length_join:
  "\<forall>x\<in>set xs. length x \<le> m \<Longrightarrow> length (join sep xs) \<le> length xs * (m + length sep)"
  by (induction sep xs rule: join.induct) auto

lemma length_format_snippet:
  assumes "i < 100" and "length (sn_code sn) < 500" and "length (sn_pattern sn) \<le> 26"
    and "sn_position sn < 10 ^ 19"
  shows "length (format_snippet i sn) \<le> 564"
proof -
  have "length (str_nat i) \<le> 2" using length_str_nat [of 2 i] assms(1) by simp
  moreover have "length (str_nat (sn_position sn)) \<le> 19"
    using length_str_nat [of 19 "sn_position sn"] assms(4) by simp
  ultimately show ?thesis using assms(2,3) by (simp add: format_snippet_def)
qed

lemma length_format_patterns:
  assumes "\<forall>sn\<in>set sns. length (sn_code sn) < 500 \<and> length (sn_pattern sn) \<le> 26 \<and> sn_position sn < 10 ^ 19"
  shows "length (format_patterns sns) \<le> 11320"
proof -
  let ?es = "map (\<lambda>p. format_snippet (fst p) (snd p)) (zip [1..<21] (take 20 sns))"
  have "\<forall>x\<in>set ?es. length x \<le> 564"
  proof
    fix x assume "x \<in> set ?es"
    then obtain i sn where p: "(i, sn) \<in> set (zip [1..<21] (take 20 sns))" and x: "x = format_snippet i sn"
      by auto
    from p have "i \<in> set [1..<21]" and "sn \<in> set (take 20 sns)"
      by (auto dest: set_zip_leftD set_zip_rightD)
    then have i: "i < 100" and "sn \<in> set sns" by (auto dest: in_set_takeD)
    with assms have "length (sn_code sn) < 500" "length (sn_pattern sn) \<le> 26" "sn_position sn < 10 ^ 19"
      by auto
    from length_format_snippet [OF i this] x show "length x \<le> 564" by simp
  qed
  from length_join [OF this, of "[CHR 0x0A, CHR 0x0A]"]
  have "length (join [CHR 0x0A, CHR 0x0A] ?es) \<le> length ?es * 566" by simp
  moreover have "length ?es \<le> 20" by simp
  then have "length ?es * 566 \<le> 20 * 566" by (rule mult_le_mono1)
  ultimately have "length (join [CHR 0x0A, CHR 0x0A] ?es) \<le> 11320" by simp
  then show ?thesis by (simp only: format_patterns_def)
qed

lemma extract_small:
  assumes "int (length body_text) \<le> max_total"
  shows "head (extract_intelligent_content body_text ctype max_total) = body_text \<and>
         tail (extract_intelligent_content body_text ctype max_total) = [] \<and>
         suspicious_patterns (extract_intelligent_content body_text ctype max_total) = []"
  using assms by (simp add: extract_intelligent_content_def Let_def)

lemma extract_large_parts:
  assumes "max_total < int (length body_text)" and "12000 \<le> max_total"
  shows "length (head (extract_intelligent_content body_text ctype max_total)) = 8000"
    and "length (tail (extract_intelligent_content body_text ctype max_total)) = 4000"
    and "suspicious_patterns (extract_intelligent_content body_text ctype max_total) = [] \<or>
         suspicious_patterns (extract_intelligent_content body_text ctype max_total) =
           format_patterns (suspicious_snippets
             (scan_patterns (max_total - 12000) 8000
                (py_slice body_text 8000 (int (length body_text - 4000))) security_patterns
                \<lparr> suspicious_snippets = [], found_names = [], bytes_used = 0 \<rparr>))"
proof -
  from assms have l: "12000 < length body_text" "body_text \<noteq> []" by auto
  then have hn: "min 8000 (length body_text) = 8000" and tn: "min 4000 (length body_text - 8000) = 4000"
    by auto
  show "length (head (extract_intelligent_content body_text ctype max_total)) = 8000"
    using assms l by (simp add: extract_intelligent_content_def Let_def hn tn py_slice_def clamp_index_def)
  show "length (tail (extract_intelligent_content body_text ctype max_total)) = 4000"
    using assms l
    by (simp add: extract_intelligent_content_def Let_def hn tn py_slice_from_def clamp_index_def)
  show "suspicious_patterns (extract_intelligent_content body_text ctype max_total) = [] \<or>
         suspicious_patterns (extract_intelligent_content body_text ctype max_total) =
           format_patterns (suspicious_snippets
             (scan_patterns (max_total - 12000) 8000
                (py_slice body_text 8000 (int (length body_text - 4000))) security_patterns
                \<lparr> suspicious_snippets = [], found_names = [], bytes_used = 0 \<rparr>))"
    using assms l by (simp add: extract_intelligent_content_def Let_def hn tn)
qed

lemma scanned_patterns_short:
  assumes "12000 < length body_text" and "length body_text < 2 ^ 63"
  shows "length (format_patterns (suspicious_snippets
             (scan_patterns budget 8000
                (py_slice body_text 8000 (int (length body_text - 4000))) security_patterns
                \<lparr> suspicious_snippets = [], found_names = [], bytes_used = 0 \<rparr>))) \<le> 11320"
proof -
  let ?middle = "py_slice body_text 8000 (int (length body_text - 4000))"
  let ?sc = "scan_patterns budget 8000 ?middle security_patterns
               \<lparr> suspicious_snippets = [], found_names = [], bytes_used = 0 \<rparr>"
  have m: "length ?middle = length body_text - 12000"
    using assms(1) by (simp add: py_slice_def clamp_index_def Let_def)
  then have b: "8000 + length ?middle \<le> length body_text" using assms(1) by simp
  have e: "\<forall>sn\<in>set (suspicious_snippets
              \<lparr> suspicious_snippets = [], found_names = [], bytes_used = 0 \<rparr>).
             length (sn_code sn) < 500 \<and> length (sn_pattern sn) \<le> 26 \<and>
             sn_position sn \<le> length body_text"
    by simp
  have inv: "\<forall>sn\<in>set (suspicious_snippets ?sc).
             length (sn_code sn) < 500 \<and> length (sn_pattern sn) \<le> 26 \<and>
             sn_position sn \<le> length body_text"
    by (rule scan_patterns_inv [OF e names_short b])
  have "(2::nat) ^ 63 < 10 ^ 19" by simp
  with assms(2) have "length body_text < 10 ^ 19" by (rule less_trans)
  with inv have "\<forall>sn\<in>set (suspicious_snippets ?sc).
             length (sn_code sn) < 500 \<and> length (sn_pattern sn) \<le> 26 \<and> sn_position sn < 10 ^ 19"
    by (meson le_less_trans)
  then show ?thesis by (rule length_format_patterns)
qed

text \<open>
  Claim C2, as stated for every budget, fails: the head and tail sizes are constants,
  whatever \<^verbatim>\<open>max_total\<close> is. A text of 11 characters extracted with budget 10 comes back
  whole as the head, 11 characters.
\<close>

theorem small_budget_counterexample:
  "10 < int (length ''aaaaaaaaaaa'') \<and>
   \<not> int (length (head (extract_intelligent_content ''aaaaaaaaaaa'' (JStr ''text/javascript'') 10)) +
          length (tail (extract_intelligent_content ''aaaaaaaaaaa'' (JStr ''text/javascript'') 10)) +
          length (suspicious_patterns
                    (extract_intelligent_content ''aaaaaaaaaaa'' (JStr ''text/javascript'') 10)))
       \<le> 10"
  by code_simp

text \<open>
  Claim C2, amended. A Python string is shorter than \<open>2 ^ 63\<close>. For every such text and
  every budget: a text no longer than the budget is returned whole as the head, with an
  empty tail and no snippet text; and when the text is longer than the budget and the
  budget is at least 23320 (the code calls with 24000), the head has 8000 characters,
  the tail 4000, the snippet text at most 11320, and the three together do not exceed
  the budget. Lengths are counted in characters, as \<^verbatim>\<open>len\<close> does.
\<close>

theorem extraction_bound:
  assumes "length body_text < 2 ^ 63"
  shows "(int (length body_text) \<le> max_total \<longrightarrow>
            head (extract_intelligent_content body_text ctype max_total) = body_text \<and>
            tail (extract_intelligent_content body_text ctype max_total) = [] \<and>
            suspicious_patterns (extract_intelligent_content body_text ctype max_total) = []) \<and>
         (max_total < int (length body_text) \<and> 23320 \<le> max_total \<longrightarrow>
            int (length (head (extract_intelligent_content body_text ctype max_total)) +
                 length (tail (extract_intelligent_content body_text ctype max_total)) +
                 length (suspicious_patterns (extract_intelligent_content body_text ctype max_total)))
              \<le> max_total)"
proof (rule conjI; rule impI)
  assume "int (length body_text) \<le> max_total"
  from extract_small [OF this]
  show "head (extract_intelligent_content body_text ctype max_total) = body_text \<and>
        tail (extract_intelligent_content body_text ctype max_total) = [] \<and>
        suspicious_patterns (extract_intelligent_content body_text ctype max_total) = []" .
next
  assume a: "max_total < int (length body_text) \<and> 23320 \<le> max_total"
  then have big: "max_total < int (length body_text)" and m: "12000 \<le> max_total"
    and l: "12000 < length body_text" by auto
  note parts = extract_large_parts [OF big m, of ctype]
  have "length (suspicious_patterns (extract_intelligent_content body_text ctype max_total)) \<le> 11320"
    using parts(3) scanned_patterns_short [OF l assms, of "max_total - 12000"] by auto
  with parts(1,2) a
  show "int (length (head (extract_intelligent_content body_text ctype max_total)) +
             length (tail (extract_intelligent_content body_text ctype max_total)) +
             length (suspicious_patterns (extract_intelligent_content body_text ctype max_total)))
          \<le> max_total" by simp
qed

theorem extraction_bound_witness:
  "head (extract_intelligent_content ''<html></html>'' (JStr ''text/html'') 24000) = ''<html></html>'' \<and>
   tail (extract_intelligent_content ''<html></html>'' (JStr ''text/html'') 24000) = [] \<and>
   int (length (head (extract_intelligent_content (replicate 30000 (CHR ''a'')) (JStr ''text/html'') 24000)) +
        length (tail (extract_intelligent_content (replicate 30000 (CHR ''a'')) (JStr ''text/html'') 24000)) +
        length (suspicious_patterns
                  (extract_intelligent_content (replicate 30000 (CHR ''a'')) (JStr ''text/html'') 24000)))
     \<le> 24000"
proof -
  have h1: "length ''<html></html>'' < 2 ^ 63" by simp
  have h2: "length (replicate 30000 (CHR ''a'')) < 2 ^ 63" by simp
  from extraction_bound [OF h1, of 24000 "JStr ''text/html''"]
       extraction_bound [OF h2, of 24000 "JStr ''text/html''"]
  show ?thesis by simp
qed

end
